theory Spec2Isabelle
  imports Main "HOL-Library.Sublist"
begin

section \<open>JavaScript values and the object store\<close>

text \<open>
  The addon of \<^verbatim>\<open>index.js\<close> keeps a Content-Security-Policy as a plain JavaScript
  object from directive names to source lists. A source list is a string of
  space-separated sources or an array of sources. Arrays and objects are reference values:
  \<^verbatim>\<open>Object.assign({}, policy)\<close> copies the references, so the copy shares its arrays
  with the configured policy. The store below makes that sharing explicit. An address is
  an index into the store; allocation appends to the store.

  Numbers are integers (no \<^verbatim>\<open>NaN\<close>, no fractions), the elements of an array are
  strings, and property lookup does not consult \<^verbatim>\<open>Object.prototype\<close> (no directive
  of a policy is named \<^verbatim>\<open>constructor\<close> or \<^verbatim>\<open>toString\<close>).
\<close>

type_synonym addr = nat

datatype jsval = Undefined | Null | Bool bool | Num int | Str string | Ref addr

datatype jsobj = Array "string list" | Object "(string \<times> jsval) list"

type_synonym heap = "jsobj list"

text \<open>
  \<^verbatim>\<open>UnknownSourceListValue\<close> is \<^verbatim>\<open>new Error('Unknown source list value')\<close>;
  \<^verbatim>\<open>TypeError\<close> is what the engine throws when a method is called that the receiver
  does not have. \<^verbatim>\<open>IllFormedStore\<close> marks a reference that points to nothing or to
  the wrong kind of object; no JavaScript program can build one.
\<close>

datatype error = UnknownSourceListValue | TypeError | IllFormedStore

type_synonym 'a result = "(error + 'a) \<times> heap"

definition bind_res :: "'a result \<Rightarrow> ('a \<Rightarrow> heap \<Rightarrow> 'b result) \<Rightarrow> 'b result" where
  "bind_res r f = (case r of (Inl e, h) \<Rightarrow> (Inl e, h) | (Inr x, h) \<Rightarrow> f x h)"

definition lookup :: "heap \<Rightarrow> addr \<Rightarrow> jsobj option" where
  "lookup h a = (if a < length h then Some (h ! a) else None)"

definition alloc :: "jsobj \<Rightarrow> heap \<Rightarrow> jsval result" where
  "alloc obj h = (Inr (Ref (length h)), h @ [obj])"

text \<open>JavaScript truthiness: what \<^verbatim>\<open>!v\<close>, \<^verbatim>\<open>v && e\<close> and \<^verbatim>\<open>v || e\<close> test.\<close>

fun truthy :: "jsval \<Rightarrow> bool" where
  "truthy Undefined = False"
| "truthy Null = False"
| "truthy (Bool b) = b"
| "truthy (Num n) = (n \<noteq> 0)"
| "truthy (Str s) = (s \<noteq> [])"
| "truthy (Ref a) = True"

subsection \<open>Properties of a plain object, in insertion order\<close>

definition has_prop :: "string \<Rightarrow> (string \<times> jsval) list \<Rightarrow> bool" where
  "has_prop k props = (k \<in> set (map fst props))"

definition get_prop :: "(string \<times> jsval) list \<Rightarrow> string \<Rightarrow> jsval" where
  "get_prop props k = (case map_of props k of None \<Rightarrow> Undefined | Some v \<Rightarrow> v)"

definition set_prop :: "(string \<times> jsval) list \<Rightarrow> string \<Rightarrow> jsval \<Rightarrow> (string \<times> jsval) list" where
  "set_prop props k v =
     (if has_prop k props then map (\<lambda>(k', v'). if k' = k then (k', v) else (k', v')) props
      else props @ [(k, v)])"

text \<open>\<^verbatim>\<open>obj[name]\<close> and \<^verbatim>\<open>obj[name] = v\<close> on the object at an address.\<close>

definition read_prop :: "addr \<Rightarrow> string \<Rightarrow> heap \<Rightarrow> jsval result" where
  "read_prop a k h =
     (case lookup h a of
        Some (Object props) \<Rightarrow> (Inr (get_prop props k), h)
      | _ \<Rightarrow> (Inl IllFormedStore, h))"

definition assign_prop :: "addr \<Rightarrow> string \<Rightarrow> jsval \<Rightarrow> heap \<Rightarrow> unit result" where
  "assign_prop a k v h =
     (case lookup h a of
        Some (Object props) \<Rightarrow> (Inr (), h[a := Object (set_prop props k v)])
      | _ \<Rightarrow> (Inl IllFormedStore, h))"

definition in_object :: "string \<Rightarrow> addr \<Rightarrow> heap \<Rightarrow> bool" where
  "in_object k a h = (case lookup h a of Some (Object props) \<Rightarrow> has_prop k props | _ \<Rightarrow> False)"

subsection \<open>Strings and arrays\<close>

text \<open>
  \<^verbatim>\<open>s.split(' ')\<close>: the pieces between single spaces, empty pieces included, so that
  \<^verbatim>\<open>''.split(' ')\<close> is \<^verbatim>\<open>['']\<close>. \<^verbatim>\<open>xs.join(' ')\<close> is the inverse direction.
\<close>

fun split_sp :: "string \<Rightarrow> string list" where
  "split_sp [] = [[]]"
| "split_sp (c # cs) =
     (if c = CHR '' '' then [] # split_sp cs
      else (case split_sp cs of [] \<Rightarrow> [[c]] | w # ws \<Rightarrow> (c # w) # ws))"

fun join_sp :: "string list \<Rightarrow> string" where
  "join_sp [] = []"
| "join_sp [x] = x"
| "join_sp (x # y # ys) = x @ '' '' @ join_sp (y # ys)"

definition isArray :: "heap \<Rightarrow> jsval \<Rightarrow> bool" where
  "isArray h v = (case v of Ref a \<Rightarrow> (case lookup h a of Some (Array xs) \<Rightarrow> True | _ \<Rightarrow> False) | _ \<Rightarrow> False)"

text \<open>
  \<^verbatim>\<open>v.length\<close>, read by the source only after \<^verbatim>\<open>v\<close> has passed the array check.
\<close>

definition array_length :: "heap \<Rightarrow> jsval \<Rightarrow> nat" where
  "array_length h v =
     (case v of Ref a \<Rightarrow> (case lookup h a of Some (Array xs) \<Rightarrow> length xs | _ \<Rightarrow> 0) | _ \<Rightarrow> 0)"

text \<open>
  \<^verbatim>\<open>v.slice()\<close>: a fresh copy of an array; a string is returned as it is
  (\<^verbatim>\<open>String.prototype.slice\<close> without arguments); any other value has no such method.
\<close>

definition js_slice :: "jsval \<Rightarrow> heap \<Rightarrow> jsval result" where
  "js_slice v h =
     (case v of
        Str s \<Rightarrow> (Inr (Str s), h)
      | Ref a \<Rightarrow> (case lookup h a of
                   Some (Array xs) \<Rightarrow> alloc (Array xs) h
                 | Some (Object props) \<Rightarrow> (Inl TypeError, h)
                 | None \<Rightarrow> (Inl IllFormedStore, h))
      | _ \<Rightarrow> (Inl TypeError, h))"

text \<open>\<^verbatim>\<open>v.push(x)\<close> changes the array in place; only arrays have the method.\<close>

definition js_push :: "jsval \<Rightarrow> string \<Rightarrow> heap \<Rightarrow> unit result" where
  "js_push v x h =
     (case v of
        Ref a \<Rightarrow> (case lookup h a of
                   Some (Array xs) \<Rightarrow> (Inr (), h[a := Array (xs @ [x])])
                 | Some (Object props) \<Rightarrow> (Inl TypeError, h)
                 | None \<Rightarrow> (Inl IllFormedStore, h))
      | _ \<Rightarrow> (Inl TypeError, h))"

definition js_join :: "jsval \<Rightarrow> heap \<Rightarrow> string result" where
  "js_join v h =
     (case v of
        Ref a \<Rightarrow> (case lookup h a of
                   Some (Array xs) \<Rightarrow> (Inr (join_sp xs), h)
                 | Some (Object props) \<Rightarrow> (Inl TypeError, h)
                 | None \<Rightarrow> (Inl IllFormedStore, h))
      | _ \<Rightarrow> (Inl TypeError, h))"

section \<open>Appending a source to a directive\<close>

text \<open>
  \<^verbatim>\<open>appendSourceList(policyObject, name, sourceList)\<close>, statement by statement. The
  function returns nothing; its effect is the assignment to \<^verbatim>\<open>policyObject[name]\<close>
  at the end. The arrays made by \<^verbatim>\<open>split\<close>, \<^verbatim>\<open>[]\<close> and \<^verbatim>\<open>slice\<close> are
  allocated in the store, and \<^verbatim>\<open>push\<close> writes to the store.
\<close>

definition appendSourceList :: "addr \<Rightarrow> string \<Rightarrow> string \<Rightarrow> heap \<Rightarrow> unit result" where
  "appendSourceList policyObject name sourceList h =
     bind_res (read_prop policyObject name h) (\<lambda>oldValue h.
     bind_res (case oldValue of
                 Str s \<Rightarrow> if s \<noteq> [] then alloc (Array (split_sp s)) h else (Inr oldValue, h)
               | _ \<Rightarrow> (Inr oldValue, h)) (\<lambda>oldValue h.
     if oldValue \<noteq> Null \<and> oldValue \<noteq> Undefined \<and> \<not> isArray h oldValue
     then (Inl UnknownSourceListValue, h)
     else
     bind_res (if \<not> truthy oldValue \<or> array_length h oldValue = 0
               then bind_res (read_prop policyObject ''default-src'' h) (\<lambda>d h.
                      if truthy d then (Inr d, h) else alloc (Array []) h)
               else (Inr oldValue, h)) (\<lambda>oldSourceList h.
     bind_res (js_slice oldSourceList h) (\<lambda>newSourceList h.
     bind_res (js_push newSourceList sourceList h) (\<lambda>_ h.
     bind_res (js_join newSourceList h) (\<lambda>joined h.
     assign_prop policyObject name (Str joined) h))))))"

section \<open>Constants of the addon\<close>

definition CSP_SELF :: string where "CSP_SELF = CHR 0x27 # ''self'' @ [CHR 0x27]"
definition CSP_NONE :: string where "CSP_NONE = CHR 0x27 # ''none'' @ [CHR 0x27]"
definition REPORT_PATH :: string where "REPORT_PATH = ''/csp-report''"
definition CSP_HEADER :: string where "CSP_HEADER = ''Content-Security-Policy''"
definition CSP_HEADER_REPORT_ONLY :: string where
  "CSP_HEADER_REPORT_ONLY = ''Content-Security-Policy-Report-Only''"
definition CSP_REPORT_URI :: string where "CSP_REPORT_URI = ''report-uri''"
definition CSP_FRAME_ANCESTORS :: string where "CSP_FRAME_ANCESTORS = ''frame-ancestors''"
definition CSP_SANDBOX :: string where "CSP_SANDBOX = ''sandbox''"
definition META_UNSUPPORTED_DIRECTIVES :: "string list" where
  "META_UNSUPPORTED_DIRECTIVES = [CSP_REPORT_URI, CSP_FRAME_ANCESTORS, CSP_SANDBOX]"
definition DELIVERY_HEADER :: string where "DELIVERY_HEADER = ''header''"
definition DELIVERY_META :: string where "DELIVERY_META = ''meta''"
definition STATIC_TEST_NONCE :: string where "STATIC_TEST_NONCE = ''abcdefg''"

text \<open>The source written at both call sites: \<^verbatim>\<open>"'nonce-" + STATIC_TEST_NONCE + "'"\<close>.\<close>

definition nonce_source :: string where
  "nonce_source = (CHR 0x27 # ''nonce-'') @ STATIC_TEST_NONCE @ [CHR 0x27]"

text \<open>
  \<^verbatim>\<open>unsupportedDirectives(policyObject)\<close>: the directives of the fixed list that are
  keys of the policy, in the order of the list. The policy is an object, hence truthy.
\<close>

definition unsupportedDirectives :: "addr \<Rightarrow> heap \<Rightarrow> string list" where
  "unsupportedDirectives policyObject h =
     filter (\<lambda>name. in_object name policyObject h) META_UNSUPPORTED_DIRECTIVES"

section \<open>Live reload\<close>

text \<open>
  The decimal form of a natural number: what \<^verbatim>\<open>':' + port\<close> yields for a port
  number, and the key of an array index.
\<close>

fun show_nat :: "nat \<Rightarrow> string" where
  "show_nat n = (if n < 10 then [char_of (48 + n)] else show_nat (n div 10) @ [char_of (48 + n mod 10)])"

declare show_nat.simps [simp del]

text \<open>
  The live-reload settings are an object with optional string properties \<^verbatim>\<open>host\<close> and
  \<^verbatim>\<open>hostname\<close> (\<open>None\<close> is \<^verbatim>\<open>undefined\<close>), a port number and a flag.
  \<^verbatim>\<open>serverMiddleware\<close> stores the host under \<^verbatim>\<open>host\<close>; \<^verbatim>\<open>allowLiveReload\<close>
  reads \<^verbatim>\<open>hostname\<close>.
\<close>

record live_reload =
  lr_host :: "string option"
  lr_hostname :: "string option"
  lr_port :: nat
  lr_ssl :: bool

text \<open>
  \<^verbatim>\<open>Boolean\<close> on a string or \<^verbatim>\<open>undefined\<close>, and the string that \<^verbatim>\<open>+\<close>
  makes of either.
\<close>

fun Boolean_str :: "string option \<Rightarrow> bool" where
  "Boolean_str None = False"
| "Boolean_str (Some s) = (s \<noteq> [])"

fun js_str :: "string option \<Rightarrow> string" where
  "js_str None = ''undefined''"
| "js_str (Some s) = s"

text \<open>\<^verbatim>\<open>xs.forEach(f)\<close> for a callback that may throw: the first exception ends the loop.\<close>

fun forEach :: "'a list \<Rightarrow> ('a \<Rightarrow> heap \<Rightarrow> unit result) \<Rightarrow> heap \<Rightarrow> unit result" where
  "forEach [] f h = (Inr (), h)"
| "forEach (x # xs) f h = bind_res (f x h) (\<lambda>_. forEach xs f)"

definition allowLiveReload :: "addr \<Rightarrow> live_reload \<Rightarrow> heap \<Rightarrow> unit result" where
  "allowLiveReload policyObject liveReloadConfig h =
     (let hostname = lr_hostname liveReloadConfig;
          port = lr_port liveReloadConfig;
          ssl = lr_ssl liveReloadConfig
      in forEach (filter Boolean_str [Some ''localhost'', Some ''0.0.0.0'', hostname])
           (\<lambda>hostname h.
              let protocol = (if ssl then ''wss://'' else ''ws://'');
                  host = js_str hostname @ '':'' @ show_nat port
              in bind_res (appendSourceList policyObject ''connect-src'' (protocol @ host) h)
                   (\<lambda>_. appendSourceList policyObject ''script-src'' host))
           h)"

section \<open>The addon: configuration, request handler and meta tag\<close>

record addon_config =
  delivery :: "string list"
  enabled :: bool
  policy :: jsval
  reportOnly :: bool

record addon =
  config :: addon_config
  liveReload :: "live_reload option"

record server_options =
  opt_liveReload :: bool
  opt_liveReloadHost :: "string option"
  opt_liveReloadPort :: nat
  opt_ssl :: bool
  opt_host :: "string option"
  opt_port :: nat

text \<open>
  \<^verbatim>\<open>Object.assign({}, source)\<close>: a new object with the own enumerable properties of the
  source, in order. \<^verbatim>\<open>undefined\<close>, \<^verbatim>\<open>null\<close>, booleans and numbers have none; a
  string and an array have their indices.
\<close>

definition index_keys :: "nat \<Rightarrow> string list" where
  "index_keys n = map show_nat [0..<n]"

definition object_assign_empty :: "jsval \<Rightarrow> heap \<Rightarrow> addr result" where
  "object_assign_empty source h =
     (case source of
        Str s \<Rightarrow> (Inr (length h), h @ [Object (zip (index_keys (length s)) (map (\<lambda>c. Str [c]) s))])
      | Ref a \<Rightarrow> (case lookup h a of
                   Some (Object props) \<Rightarrow> (Inr (length h), h @ [Object props])
                 | Some (Array xs) \<Rightarrow>
                     (Inr (length h), h @ [Object (zip (index_keys (length xs)) (map Str xs))])
                 | None \<Rightarrow> (Inl IllFormedStore, h))
      | _ \<Rightarrow> (Inr (length h), h @ [Object []]))"

text \<open>
  The first statements of \<^verbatim>\<open>serverMiddleware\<close>: the live-reload settings are cached
  on the addon when the server runs with live reload.
\<close>

definition serverMiddleware_setup :: "addon \<Rightarrow> server_options \<Rightarrow> addon" where
  "serverMiddleware_setup self options =
     (if opt_liveReload options
      then self\<lparr>liveReload := Some \<lparr>lr_host = opt_liveReloadHost options, lr_hostname = None,
                                    lr_port = opt_liveReloadPort options, lr_ssl = opt_ssl options\<rparr>\<rparr>
      else self)"

text \<open>\<^verbatim>\<open>header.indexOf(needle) !== -1\<close>.\<close>

fun starts_with :: "string \<Rightarrow> string \<Rightarrow> bool" where
  "starts_with [] s = True"
| "starts_with (c # cs) [] = False"
| "starts_with (c # cs) (d # ds) = (c = d \<and> starts_with cs ds)"

fun str_includes :: "string \<Rightarrow> string \<Rightarrow> bool" where
  "str_includes needle [] = (needle = [])"
| "str_includes needle (c # cs) = (starts_with needle (c # cs) \<or> str_includes needle cs)"

definition header_name :: "addon_config \<Rightarrow> string" where
  "header_name cfg = (if reportOnly cfg then CSP_HEADER_REPORT_ONLY else CSP_HEADER)"

text \<open>
  The report endpoint (the \<^verbatim>\<open>if\<close> that follows the live-reload step in the request
  handler).
\<close>

definition report_endpoint :: "string \<Rightarrow> server_options \<Rightarrow> addr \<Rightarrow> heap \<Rightarrow> unit result" where
  "report_endpoint header options policyObject h =
     (if str_includes ''Report-Only'' header \<and> \<not> in_object ''report-uri'' policyObject h
      then
        let ecHost = (if Boolean_str (opt_host options) then js_str (opt_host options) else ''localhost'');
            ecProtocol = (if opt_ssl options then ''https://'' else ''http://'');
            ecOrigin = ecProtocol @ ecHost @ '':'' @ show_nat (opt_port options)
        in bind_res (appendSourceList policyObject ''connect-src'' ecOrigin h)
             (\<lambda>_. assign_prop policyObject ''report-uri'' (Str (ecOrigin @ REPORT_PATH)))
      else (Inr (), h))"

text \<open>
  The working policy of a request: the copy of the configured policy, the nonce, live
  reload and the report endpoint. The result is the address of the copy. The copy is an
  object, so the test \<^verbatim>\<open>if (policyObject)\<close> before the nonce always succeeds.
\<close>

definition header_policy :: "addon \<Rightarrow> server_options \<Rightarrow> heap \<Rightarrow> addr result" where
  "header_policy self options h =
     (let header = header_name (config self)
      in bind_res (object_assign_empty (policy (config self)) h) (\<lambda>policyObject h.
         bind_res (appendSourceList policyObject ''script-src'' nonce_source h) (\<lambda>_ h.
         bind_res (case liveReload self of
                     Some lr \<Rightarrow> allowLiveReload policyObject lr h
                   | None \<Rightarrow> (Inr (), h)) (\<lambda>_ h.
         bind_res (report_endpoint header options policyObject h) (\<lambda>_ h.
         (Inr policyObject, h))))))"

text \<open>
  The response is the map of its headers. \<^verbatim>\<open>next()\<close> is called on every path that
  does not throw, so a result \<open>Inr res\<close> is the response handed to the next middleware.
\<close>

type_synonym response = "string \<rightharpoonup> string"

definition set_csp_headers :: "string \<Rightarrow> string \<Rightarrow> response \<Rightarrow> response" where
  "set_csp_headers header headerValue res =
     (let res = res(CSP_HEADER := None);
          res = res(CSP_HEADER_REPORT_ONLY := None);
          res = res(header \<mapsto> headerValue);
          res = res((''X-'' @ CSP_HEADER) := None);
          res = res((''X-'' @ CSP_HEADER_REPORT_ONLY) := None);
          res = res((''X-'' @ header) \<mapsto> headerValue)
      in res)"

text \<open>
  The request handler registered by \<^verbatim>\<open>serverMiddleware\<close>. \<^verbatim>\<open>buildPolicyString\<close>
  comes from \<^verbatim>\<open>lib/utils\<close> and is a parameter here: a function from the policy object
  to a string.
\<close>

definition request_handler ::
  "(addr \<Rightarrow> heap \<Rightarrow> string) \<Rightarrow> addon \<Rightarrow> server_options \<Rightarrow> response \<Rightarrow> heap \<Rightarrow> response result" where
  "request_handler buildPolicyString self options res h =
     (if \<not> enabled (config self) then (Inr res, h)
      else
        let header = header_name (config self)
        in bind_res (header_policy self options h) (\<lambda>policyObject h.
             let headerValue = buildPolicyString policyObject h
             in if headerValue = [] then (Inr res, h)
                else (Inr (set_csp_headers header headerValue res), h)))"

text \<open>
  What \<^verbatim>\<open>contentFor\<close> writes: a call of \<^verbatim>\<open>ui.writeWarnLine(message, test)\<close> and a
  line printed with \<^verbatim>\<open>console.log(chalk.yellow(message))\<close>.
\<close>

datatype effect = WriteWarnLine string bool | LogYellow string

definition report_only_meta_message :: string where
  "report_only_meta_message =
     ''Content Security Policy does not support report only mode if delivered via meta element. '' @
     ''Either set `ENV['' @ [CHR 0x27] @ ''ember-cli-content-security-policy'' @ [CHR 0x27] @
     ''].reportOnly` to `false` or remove `'' @ [CHR 0x27] @ ''meta'' @ [CHR 0x27] @ ''` '' @
     ''from `ENV['' @ [CHR 0x27] @ ''ember-cli-content-security-policy'' @ [CHR 0x27] @
     ''].delivery`.''"

definition unsupported_message :: "string \<Rightarrow> string" where
  "unsupported_message name =
     ''CSP delivered via meta does not support `'' @ name @ ''`, '' @
     ''per the W3C recommendation.''"

definition meta_tag :: "string \<Rightarrow> string" where
  "meta_tag policyString =
     ''<meta http-equiv=\"'' @ CSP_HEADER @ ''\" content=\"'' @ policyString @ ''\">''"

text \<open>
  The working policy of a build: the copy, the nonce in the test environment (the copy is
  an object, so \<^verbatim>\<open>policyObject && ...\<close> is the test of the environment), live reload.
\<close>

definition meta_policy :: "addon \<Rightarrow> string \<Rightarrow> heap \<Rightarrow> addr result" where
  "meta_policy self environment h =
     bind_res (object_assign_empty (policy (config self)) h) (\<lambda>policyObject h.
     bind_res (if environment = ''test''
               then appendSourceList policyObject ''script-src'' nonce_source h
               else (Inr (), h)) (\<lambda>_ h.
     bind_res (case liveReload self of
                 Some lr \<Rightarrow> allowLiveReload policyObject lr h
               | None \<Rightarrow> (Inr (), h)) (\<lambda>_ h.
     (Inr policyObject, h))))"

text \<open>
  \<^verbatim>\<open>contentFor(type, appConfig, existingContent)\<close> for the page head. The result is
  the returned string (\<open>None\<close> for \<^verbatim>\<open>undefined\<close>) or the exception, what was written
  before that, and the store. The branch for \<^verbatim>\<open>'test-body-footer'\<close> rewrites the
  \<^verbatim>\<open>existingContent\<close> array of the caller and reads no policy; it returns
  \<^verbatim>\<open>undefined\<close> like every other type.
\<close>

definition contentFor ::
  "(addr \<Rightarrow> heap \<Rightarrow> string) \<Rightarrow> addon \<Rightarrow> string \<Rightarrow> string \<Rightarrow> heap
     \<Rightarrow> (error + string option) \<times> effect list \<times> heap" where
  "contentFor buildPolicyString self type environment h =
     (if \<not> enabled (config self) then (Inr None, [], h)
      else if type = ''head'' \<and> DELIVERY_META \<in> set (delivery (config self))
      then
        let warn = WriteWarnLine report_only_meta_message (reportOnly (config self))
        in (case meta_policy self environment h of
              (Inl e, h) \<Rightarrow> (Inl e, [warn], h)
            | (Inr policyObject, h) \<Rightarrow>
                let policyString = buildPolicyString policyObject h;
                    logs = map (\<lambda>name. LogYellow (unsupported_message name))
                             (unsupportedDirectives policyObject h)
                in if policyString = []
                   then (Inr None, warn # logs @ [LogYellow ''CSP via meta tag enabled but no policy exist.''], h)
                   else (Inr (Some (meta_tag policyString)), warn # logs, h))
      else (Inr None, [], h))"

section \<open>Notions used to state the properties\<close>

text \<open>
  The normalisation of a directive value as the specification words it: an absent value
  is the empty sequence, a string is split on single spaces, an array is itself, anything
  else is invalid (\<open>None\<close>). Splitting the empty string gives one empty piece.
\<close>

definition spec_normalize :: "heap \<Rightarrow> jsval \<Rightarrow> string list option" where
  "spec_normalize h v =
     (case v of
        Undefined \<Rightarrow> Some []
      | Str s \<Rightarrow> Some (split_sp s)
      | Ref a \<Rightarrow> (case lookup h a of Some (Array xs) \<Rightarrow> Some xs | _ \<Rightarrow> None)
      | _ \<Rightarrow> None)"

text \<open>Between two stores, nothing that existed has changed except the object at \<open>p\<close>.\<close>

definition modifies_only :: "addr \<Rightarrow> heap \<Rightarrow> heap \<Rightarrow> bool" where
  "modifies_only p h h' =
     (length h \<le> length h' \<and> (\<forall>a<length h. a \<noteq> p \<longrightarrow> h' ! a = h ! a))"

text \<open>Two property lists agree on every key outside a set of directive names.\<close>

definition same_outside ::
  "string set \<Rightarrow> (string \<times> jsval) list \<Rightarrow> (string \<times> jsval) list \<Rightarrow> bool" where
  "same_outside ks props props' =
     (\<forall>k. k \<notin> ks \<longrightarrow> get_prop props' k = get_prop props k \<and> has_prop k props' = has_prop k props)"


text \<open>
  Kinds of directive values: a number, a boolean or an object that is not an array; a value
  that is absent, \<^verbatim>\<open>null\<close>, a string with sources or an array; a value with at least
  one source; a \<^verbatim>\<open>default-src\<close> that is absent, falsy or an array.
\<close>

definition not_a_source_list :: "heap \<Rightarrow> jsval \<Rightarrow> bool" where
  "not_a_source_list h v =
     (case v of Bool b \<Rightarrow> True | Num n \<Rightarrow> True | Ref a \<Rightarrow> \<not> isArray h (Ref a) | _ \<Rightarrow> False)"

definition source_list_value :: "heap \<Rightarrow> jsval \<Rightarrow> bool" where
  "source_list_value h v =
     (case v of Undefined \<Rightarrow> True | Null \<Rightarrow> True | Str s \<Rightarrow> s \<noteq> []
      | Ref a \<Rightarrow> isArray h (Ref a) | _ \<Rightarrow> False)"

definition has_sources :: "heap \<Rightarrow> jsval \<Rightarrow> bool" where
  "has_sources h v =
     (case v of Str s \<Rightarrow> s \<noteq> [] | Ref a \<Rightarrow> isArray h (Ref a) \<and> array_length h (Ref a) \<noteq> 0
      | _ \<Rightarrow> False)"

definition usable_default :: "heap \<Rightarrow> jsval \<Rightarrow> bool" where
  "usable_default h d = (\<not> truthy d \<or> isArray h d)"

text \<open>
  The live-reload step as the specification lists it: the candidate hosts, and for each of
  them one request for \<^verbatim>\<open>connect-src\<close> and one for \<^verbatim>\<open>script-src\<close>, applied from
  left to right.
\<close>

definition live_reload_candidates :: "live_reload \<Rightarrow> string list" where
  "live_reload_candidates cfg =
     [''localhost'', ''0.0.0.0''] @
     (case lr_hostname cfg of None \<Rightarrow> [] | Some s \<Rightarrow> if s = [] then [] else [s])"

definition live_reload_appends :: "live_reload \<Rightarrow> (string \<times> string) list" where
  "live_reload_appends cfg =
     concat (map (\<lambda>c. [(''connect-src'', (if lr_ssl cfg then ''wss://'' else ''ws://'') @ c @ '':'' @ show_nat (lr_port cfg)),
                        (''script-src'', c @ '':'' @ show_nat (lr_port cfg))])
                 (live_reload_candidates cfg))"

fun append_all :: "addr \<Rightarrow> (string \<times> string) list \<Rightarrow> heap \<Rightarrow> unit result" where
  "append_all p [] h = (Inr (), h)"
| "append_all p ((d, t) # rs) h = bind_res (appendSourceList p d t h) (\<lambda>_. append_all p rs)"

text \<open>The origin of the report endpoint as the specification writes it.\<close>

definition report_origin :: "server_options \<Rightarrow> string" where
  "report_origin options =
     (if opt_ssl options then ''https://'' else ''http://'') @
     (case opt_host options of None \<Rightarrow> ''localhost'' | Some s \<Rightarrow> if s = [] then ''localhost'' else s) @
     '':'' @ show_nat (opt_port options)"

text \<open>
  The host calls the request handler once per request and \<^verbatim>\<open>contentFor\<close> once per
  build, one call after the other on the same store.
\<close>

datatype event = Request server_options response | Build string string

fun serve :: "(addr \<Rightarrow> heap \<Rightarrow> string) \<Rightarrow> addon \<Rightarrow> event list \<Rightarrow> heap \<Rightarrow> heap" where
  "serve bps self [] h = h"
| "serve bps self (Request options res # evs) h =
     serve bps self evs (snd (request_handler bps self options res h))"
| "serve bps self (Build type environment # evs) h =
     serve bps self evs (snd (snd (contentFor bps self type environment h)))"

text \<open>
  The string form of a directive value (a string as it is, an array joined by single
  spaces), the sources a list of requests asks to append to a directive, and a string with
  sources appended, each after a single space.
\<close>

definition sources_string :: "heap \<Rightarrow> jsval \<Rightarrow> string" where
  "sources_string h v =
     (case v of
        Str s \<Rightarrow> s
      | Ref a \<Rightarrow> (case lookup h a of Some (Array xs) \<Rightarrow> join_sp xs | _ \<Rightarrow> [])
      | _ \<Rightarrow> [])"

definition requested :: "string \<Rightarrow> (string \<times> string) list \<Rightarrow> string list" where
  "requested d reqs = map snd (filter (\<lambda>r. fst r = d) reqs)"

definition with_appended :: "string \<Rightarrow> string list \<Rightarrow> string" where
  "with_appended s ts = s @ concat (map (\<lambda>t. CHR '' '' # t) ts)"

text \<open>
  The policy at \<open>p\<close> is an object that agrees with \<open>props\<close> on every directive
  outside \<open>ks\<close>.
\<close>

definition keeps_outside :: "string set \<Rightarrow> addr \<Rightarrow> (string \<times> jsval) list \<Rightarrow> heap \<Rightarrow> bool" where
  "keeps_outside ks p props h =
     (\<exists>props'. lookup h p = Some (Object props') \<and> same_outside ks props props')"


text \<open>
  Modelled from the spec: \<^verbatim>\<open>buildPolicyString\<close> of \<^verbatim>\<open>lib/utils\<close>, which is not among
  the sources. Every directive whose value has a non-empty string form (a string as it is,
  an array joined by single spaces) gives the clause \<^verbatim>\<open>directive value\<close>; the clauses
  are joined by \<^verbatim>\<open>; \<close> in the order of the policy; no clause gives the empty string.
\<close>

fun join_with :: "string \<Rightarrow> string list \<Rightarrow> string" where
  "join_with sep [] = []"
| "join_with sep [x] = x"
| "join_with sep (x # y # ys) = x @ sep @ join_with sep (y # ys)"


definition buildPolicyString_spec :: "addr \<Rightarrow> heap \<Rightarrow> string" where
  "buildPolicyString_spec policyObject h =
     (case lookup h policyObject of
        Some (Object props) \<Rightarrow>
          join_with ''; ''
            (map (\<lambda>(name, v). name @ '' '' @ sources_string h v)
               (filter (\<lambda>(name, v). sources_string h v \<noteq> []) props))
      | _ \<Rightarrow> [])"

text \<open>
  The statements of the request handler from the copy of the policy to the live-reload
  step, that is \<^verbatim>\<open>header_policy\<close> before the report endpoint.
\<close>

definition nonce_and_live_reload :: "addon \<Rightarrow> heap \<Rightarrow> addr result" where
  "nonce_and_live_reload self h =
     bind_res (object_assign_empty (policy (config self)) h) (\<lambda>policyObject h.
     bind_res (appendSourceList policyObject ''script-src'' nonce_source h) (\<lambda>_ h.
     bind_res (case liveReload self of
                 Some lr \<Rightarrow> allowLiveReload policyObject lr h
               | None \<Rightarrow> (Inr (), h)) (\<lambda>_ h.
     (Inr policyObject, h))))"

section \<open>Strings and property lists\<close>

lemma split_sp_nonempty [simp]: "split_sp s \<noteq> []"
  by (induction s) (auto split: list.splits)

lemma join_sp_Cons: "ys \<noteq> [] \<Longrightarrow> join_sp (x # ys) = x @ '' '' @ join_sp ys"
  by (cases ys) simp_all

lemma join_sp_snoc: "xs \<noteq> [] \<Longrightarrow> join_sp (xs @ [t]) = join_sp xs @ '' '' @ t"
  by (induction xs rule: join_sp.induct) simp_all

lemma join_split: "join_sp (split_sp s) = s"
proof (induction s)
  case Nil
  show ?case by simp
next
  case (Cons c cs)
  show ?case
  proof (cases "c = CHR '' ''")
    case True
    with Cons show ?thesis by (simp add: join_sp_Cons)
  next
    case False
    obtain w ws where ws: "split_sp cs = w # ws"
      by (cases "split_sp cs") simp_all
    with Cons False show ?thesis
      by (cases ws) auto
  qed
qed




lemma map_fst_update:
  "map fst (map (\<lambda>(k', v'). if k' = k then (k', v) else (k', v')) ps) = map fst ps"
  by (induction ps) auto

lemma map_of_update:
  "map_of (map (\<lambda>(k', v'). if k' = k then (k', v) else (k', v')) ps) x =
     (if x = k \<and> k \<in> set (map fst ps) then Some v else map_of ps x)"
proof (induction ps arbitrary: x)
  case Nil
  show ?case by simp
next
  case (Cons a ps)
  obtain k' v' where a: "a = (k', v')" by (cases a)
  show ?case
    unfolding a by (cases "k' = k") (simp_all add: Cons)
qed

lemma has_prop_set_prop: "has_prop k (set_prop props k' v) = (k = k' \<or> has_prop k props)"
proof (cases "has_prop k' props")
  case True
  then show ?thesis
    unfolding has_prop_def set_prop_def by (auto simp only: map_fst_update if_True)
next
  case False
  then show ?thesis
    unfolding has_prop_def set_prop_def by auto
qed

lemma map_of_set_prop: "map_of (set_prop props k v) x = (if x = k then Some v else map_of props x)"
proof (cases "has_prop k props")
  case True
  then show ?thesis
    by (simp only: set_prop_def if_True map_of_update) (simp add: has_prop_def)
next
  case False
  then have "map_of props k = None"
    by (simp add: has_prop_def map_of_eq_None_iff)
  with False show ?thesis
    by (auto simp: set_prop_def map_add_def split: option.splits)
qed

lemma get_prop_set_prop: "get_prop (set_prop props k v) k' = (if k' = k then v else get_prop props k')"
  by (simp add: get_prop_def map_of_set_prop)

section \<open>What appendSourceList computes\<close>

lemmas ops = bind_res_def read_prop_def lookup_def alloc_def isArray_def array_length_def
  js_slice_def js_push_def js_join_def assign_prop_def

lemma modifies_only_refl: "modifies_only p h h"
  by (simp add: modifies_only_def)

lemma modifies_only_trans:
  "modifies_only p h h' \<Longrightarrow> modifies_only p h' h'' \<Longrightarrow> modifies_only p h h''"
  by (auto simp: modifies_only_def)

lemma prefix_lookup: "prefix h h' \<Longrightarrow> a < length h \<Longrightarrow> lookup h' a = lookup h a"
  by (auto simp: prefix_def lookup_def nth_append)

lemma appendSourceList_frame:
  "modifies_only p h (snd (appendSourceList p name t h))"
  unfolding appendSourceList_def modifies_only_def
  by (auto simp: ops nth_append list_update_append nth_list_update split: if_splits option.splits jsobj.splits jsval.splits)

lemma appendSourceList_error:
  "appendSourceList p name t h = (Inl e, h') \<Longrightarrow> prefix h h'"
  unfolding appendSourceList_def
  by (auto simp: ops nth_append list_update_append nth_list_update split: if_splits option.splits jsobj.splits jsval.splits)

lemma appendSourceList_ok:
  "appendSourceList p name t h = (Inr u, h') \<Longrightarrow> lookup h p = Some (Object props) \<Longrightarrow>
   \<exists>xs. lookup h' p = Some (Object (set_prop props name (Str (join_sp (xs @ [t])))))"
  unfolding appendSourceList_def
  apply (auto simp: ops nth_append list_update_append nth_list_update split: if_splits option.splits jsobj.splits jsval.splits)
    apply (rule exI [of _ "[]"], simp)+
  done

lemma append_existing_array:
  assumes "lookup h p = Some (Object props)" "get_prop props name = Ref a"
    "lookup h a = Some (Array xs)" "xs \<noteq> []"
  shows "appendSourceList p name t h =
    (Inr (), (h @ [Array (xs @ [t])])[p := Object (set_prop props name (Str (join_sp (xs @ [t]))))])"
  using assms unfolding appendSourceList_def
  by (auto simp: ops nth_append list_update_append split: if_splits)

lemma append_existing_string:
  assumes "lookup h p = Some (Object props)" "get_prop props name = Str s" "s \<noteq> []"
  shows "appendSourceList p name t h =
    (Inr (), (h @ [Array (split_sp s), Array (split_sp s @ [t])])
         [p := Object (set_prop props name (Str (join_sp (split_sp s @ [t]))))])"
  using assms unfolding appendSourceList_def
  by (auto simp: ops nth_append list_update_append split: if_splits)

lemma append_unknown:
  assumes "lookup h p = Some (Object props)" "not_a_source_list h (get_prop props name)"
  shows "appendSourceList p name t h = (Inl UnknownSourceListValue, h)"
  using assms unfolding appendSourceList_def not_a_source_list_def
  by (auto simp: ops split: if_splits jsval.splits option.splits jsobj.splits)

lemma append_empty_string:
  assumes "lookup h p = Some (Object props)" "get_prop props name = Str []"
  shows "appendSourceList p name t h = (Inl UnknownSourceListValue, h)"
  using assms unfolding appendSourceList_def
  by (auto simp: ops split: if_splits jsval.splits option.splits jsobj.splits)

lemma append_fallback_array:
  assumes "lookup h p = Some (Object props)" "spec_normalize h (get_prop props name) = Some [] \<or> get_prop props name = Null"
    "get_prop props name \<noteq> Str []"
    "get_prop props ''default-src'' = Ref b" "lookup h b = Some (Array ys)"
  shows "appendSourceList p name t h =
    (Inr (), (h @ [Array (ys @ [t])])[p := Object (set_prop props name (Str (join_sp (ys @ [t]))))])"
  using assms unfolding appendSourceList_def spec_normalize_def
  by (auto simp: ops nth_append list_update_append split: if_splits jsval.splits option.splits jsobj.splits)

lemma append_fallback_none:
  assumes "lookup h p = Some (Object props)" "spec_normalize h (get_prop props name) = Some [] \<or> get_prop props name = Null"
    "get_prop props name \<noteq> Str []"
    "\<not> truthy (get_prop props ''default-src'')"
  shows "appendSourceList p name t h =
    (Inr (), (h @ [Array [], Array [t]])[p := Object (set_prop props name (Str t))])"
  using assms unfolding appendSourceList_def spec_normalize_def
  by (auto simp: ops nth_append list_update_append split: if_splits jsval.splits option.splits jsobj.splits)

lemma lookup_update_same: "p < length h \<Longrightarrow> lookup ((h @ new)[p := x]) p = Some x"
  by (simp add: lookup_def nth_append list_update_append)

lemma lookup_Some_less: "lookup h p = Some x \<Longrightarrow> p < length h"
  by (simp add: lookup_def split: if_splits)


section \<open>The fallback to default-src\<close>

text \<open>
  C1. When the directive is absent, \<^verbatim>\<open>null\<close> or empty, the new value is the sources of
  \<^verbatim>\<open>default-src\<close> followed by the new source, also when \<^verbatim>\<open>default-src\<close> is a
  space-separated string. The source does so for an array (second equation, the example of
  the specification; in general \<open>append_fallback_array\<close> and \<open>append_fallback_none\<close>).
  For a string it does not: \<^verbatim>\<open>slice\<close> returns the string, which has no
  \<^verbatim>\<open>push\<close>, and the call ends with a \<^verbatim>\<open>TypeError\<close> (first equation).
\<close>

theorem C1_string_default_src_throws:
  "appendSourceList 0 ''connect-src'' ''b.com''
       [Object [(''default-src'', Str (CSP_SELF @ '' a.com''))]] =
     (Inl TypeError, [Object [(''default-src'', Str (CSP_SELF @ '' a.com''))]]) \<and>
   appendSourceList 1 ''connect-src'' ''b.com''
       [Array [CSP_SELF, ''a.com''], Object [(''default-src'', Ref 0)]] =
     (Inr (), [Array [CSP_SELF, ''a.com''],
               Object [(''default-src'', Ref 0), (''connect-src'', Str (CSP_SELF @ '' a.com b.com''))],
               Array [CSP_SELF, ''a.com'', ''b.com'']])"
  by (simp add: appendSourceList_def ops CSP_SELF_def get_prop_def set_prop_def has_prop_def)


text \<open>The failing call alone.\<close>

theorem C1_string_default_src_throws_witness:
  "fst (appendSourceList 0 ''connect-src'' ''b.com''
       [Object [(''default-src'', Str (CSP_SELF @ '' a.com''))]]) = Inl TypeError"
  using C1_string_default_src_throws by simp


section \<open>Appending to a directive that has sources\<close>

text \<open>
  A non-empty array, or a string with at least one character, normalizes to a non-empty
  sequence \<open>existing\<close>; the append then succeeds and the directive becomes
  \<open>existing\<close> followed by the new source, joined by single spaces. No hypothesis
  mentions \<^verbatim>\<open>default-src\<close>: its value, whatever it is, plays no part.
\<close>

lemma append_to_existing_sources:
  assumes "lookup h p = Some (Object props)"
    and "spec_normalize h (get_prop props D) = Some existing"
    and "existing \<noteq> []"
    and "get_prop props D \<noteq> Str []"
  shows "fst (appendSourceList p D T h) = Inr () \<and>
         lookup (snd (appendSourceList p D T h)) p =
           Some (Object (set_prop props D (Str (join_sp (existing @ [T])))))"
proof (cases "get_prop props D")
  case (Str s)
  with assms(2,4) have s: "s \<noteq> []" and ex: "existing = split_sp s"
    by (auto simp: spec_normalize_def)
  show ?thesis
    unfolding append_existing_string [OF assms(1) Str s] ex
    using lookup_Some_less [OF assms(1)] by (simp add: lookup_update_same)
next
  case (Ref a)
  with assms(2) have arr: "lookup h a = Some (Array existing)"
    by (auto simp: spec_normalize_def split: option.splits jsobj.splits)
  show ?thesis
    unfolding append_existing_array [OF assms(1) Ref arr assms(3)]
    using lookup_Some_less [OF assms(1)] by (simp add: lookup_update_same)
qed (use assms in \<open>auto simp: spec_normalize_def\<close>)

text \<open>
  C4. If the directive normalizes to a non-empty sequence \<open>existing\<close>, the append gives
  the directive \<open>existing\<close> followed by the new source, as for
  \<^verbatim>\<open>{"script-src": ["'self'"]}\<close> and \<^verbatim>\<open>'nonce-x'\<close>, which give
  \<^verbatim>\<open>'self' 'nonce-x'\<close> (last two equations). The empty string normalizes to the
  sequence of one empty piece (first equation), so the claim covers it; there the source
  throws \<^verbatim>\<open>Unknown source list value\<close> (second equation): the cast of strings to arrays
  skips a falsy string, and the check that follows rejects what is not an array.
\<close>

theorem C4_empty_string_throws:
  "spec_normalize [Object [(''script-src'', Str [])]]
      (get_prop [(''script-src'', Str [])] ''script-src'') = Some [[]] \<and>
   appendSourceList 0 ''script-src'' ''x'' [Object [(''script-src'', Str [])]] =
     (Inl UnknownSourceListValue, [Object [(''script-src'', Str [])]]) \<and>
   fst (appendSourceList 1 ''script-src'' (CHR 0x27 # ''nonce-x'' @ [CHR 0x27])
          [Array [CSP_SELF], Object [(''script-src'', Ref 0)]]) = Inr () \<and>
   lookup (snd (appendSourceList 1 ''script-src'' (CHR 0x27 # ''nonce-x'' @ [CHR 0x27])
          [Array [CSP_SELF], Object [(''script-src'', Ref 0)]])) 1 =
     Some (Object [(''script-src'', Str (CSP_SELF @ '' '' @ CHR 0x27 # ''nonce-x'' @ [CHR 0x27]))])"
proof -
  have 1: "lookup [Array [CSP_SELF], Object [(''script-src'', Ref 0)]] 1 = Some (Object [(''script-src'', Ref 0)])"
    by (simp add: lookup_def)
  have 2: "spec_normalize [Array [CSP_SELF], Object [(''script-src'', Ref 0)]]
      (get_prop [(''script-src'', Ref 0)] ''script-src'') = Some [CSP_SELF]"
    by (simp add: spec_normalize_def get_prop_def lookup_def)
  have 3: "[CSP_SELF] \<noteq> []" by simp
  have 4: "get_prop [(''script-src'', Ref 0)] ''script-src'' \<noteq> Str []"
    by (simp add: get_prop_def)
  have 5: "lookup [Object [(''script-src'', Str [])]] 0 = Some (Object [(''script-src'', Str [])])"
    by (simp add: lookup_def)
  have 6: "get_prop [(''script-src'', Str [])] ''script-src'' = Str []"
    by (simp add: get_prop_def)
  show ?thesis
    using append_to_existing_sources [OF 1 2 3 4, of "CHR 0x27 # ''nonce-x'' @ [CHR 0x27]"]
      append_empty_string [OF 5 6, of "''x''"]
    by (simp add: set_prop_def has_prop_def spec_normalize_def 6)
qed

text \<open>The failing call alone.\<close>

theorem C4_empty_string_throws_witness:
  "fst (appendSourceList 0 ''script-src'' ''x'' [Object [(''script-src'', Str [])]]) =
     Inl UnknownSourceListValue"
  using C4_empty_string_throws by simp


section \<open>Values that are not source lists\<close>

lemma append_has_sources:
  assumes "lookup h p = Some (Object props)" "has_sources h (get_prop props D)"
  shows "fst (appendSourceList p D T h) = Inr ()"
proof (cases "get_prop props D")
  case (Str s)
  with assms(2) have "s \<noteq> []" by (simp add: has_sources_def)
  then show ?thesis by (simp add: append_existing_string [OF assms(1) Str])
next
  case (Ref a)
  with assms(2) obtain xs where "lookup h a = Some (Array xs)" "xs \<noteq> []"
    by (auto simp: has_sources_def isArray_def array_length_def split: option.splits jsobj.splits)
  then show ?thesis by (simp add: append_existing_array [OF assms(1) Ref])
qed (use assms(2) in \<open>simp_all add: has_sources_def\<close>)

lemma append_usable_default:
  assumes "lookup h p = Some (Object props)" "source_list_value h (get_prop props D)"
    "usable_default h (get_prop props ''default-src'')"
  shows "fst (appendSourceList p D T h) = Inr ()"
  using assms unfolding appendSourceList_def source_list_value_def usable_default_def
  by (auto simp: ops nth_append split: if_splits jsval.splits option.splits jsobj.splits)

lemma append_not_unknown:
  assumes "lookup h p = Some (Object props)" "source_list_value h (get_prop props D)"
  shows "fst (appendSourceList p D T h) \<noteq> Inl UnknownSourceListValue"
  using assms unfolding appendSourceList_def source_list_value_def
  by (auto simp: ops nth_append split: if_splits jsval.splits option.splits jsobj.splits)


text \<open>
  C5, as stated: every value that is neither absent, a string nor an array makes the append
  fail. \<^verbatim>\<open>null\<close> is such a value (the normalisation of the specification rejects
  it), and the source accepts it: the check that throws excludes \<^verbatim>\<open>null\<close> by name.
\<close>

theorem C5_null_is_accepted:
  "spec_normalize [Object [(''script-src'', Null)]] (get_prop [(''script-src'', Null)] ''script-src'') = None \<and>
   appendSourceList 0 ''script-src'' ''x'' [Object [(''script-src'', Null)]] =
     (Inr (), [Object [(''script-src'', Str ''x'')], Array [], Array [''x'']])"
  by (simp add: appendSourceList_def ops get_prop_def set_prop_def has_prop_def spec_normalize_def)


text \<open>
  C5, amended. A number, a boolean or an object that is not an array makes the append throw
  \<^verbatim>\<open>Unknown source list value\<close> with the store untouched. A value that is absent,
  \<^verbatim>\<open>null\<close>, a string with sources or an array never makes it throw that error, and the
  append succeeds when in addition the value has a source or \<^verbatim>\<open>default-src\<close> is
  absent, falsy or an array.
\<close>

theorem C5_unknown_source_list_value:
  assumes "lookup h p = Some (Object props)"
  shows "(not_a_source_list h (get_prop props D) \<longrightarrow>
            appendSourceList p D T h = (Inl UnknownSourceListValue, h)) \<and>
         (source_list_value h (get_prop props D) \<longrightarrow>
            fst (appendSourceList p D T h) \<noteq> Inl UnknownSourceListValue) \<and>
         (source_list_value h (get_prop props D) \<and>
            (has_sources h (get_prop props D) \<or> usable_default h (get_prop props ''default-src'')) \<longrightarrow>
            fst (appendSourceList p D T h) = Inr ())"
  using append_unknown [OF assms] append_not_unknown [OF assms]
    append_has_sources [OF assms] append_usable_default [OF assms]
  by blast


theorem C5_unknown_source_list_value_witness:
  "appendSourceList 0 ''script-src'' ''x'' [Object [(''script-src'', Num 5)]] =
     (Inl UnknownSourceListValue, [Object [(''script-src'', Num 5)]]) \<and>
   appendSourceList 0 ''script-src'' ''x'' [Object [(''script-src'', Bool True)]] =
     (Inl UnknownSourceListValue, [Object [(''script-src'', Bool True)]]) \<and>
   fst (appendSourceList 1 ''script-src'' ''x'' [Array [''a''], Object [(''default-src'', Ref 0)]]) = Inr () \<and>
   fst (appendSourceList 0 ''script-src'' ''x'' [Object [(''script-src'', Str ''a b''), (''default-src'', Str ''c'')]]) = Inr ()"
proof -
  have a: "lookup [Object [(''script-src'', Num 5)]] 0 = Some (Object [(''script-src'', Num 5)])"
    by (simp add: lookup_def)
  have b: "lookup [Object [(''script-src'', Bool True)]] 0 = Some (Object [(''script-src'', Bool True)])"
    by (simp add: lookup_def)
  have c: "lookup [Array [''a''], Object [(''default-src'', Ref 0)]] 1 = Some (Object [(''default-src'', Ref 0)])"
    by (simp add: lookup_def)
  have d: "lookup [Object [(''script-src'', Str ''a b''), (''default-src'', Str ''c'')]] 0 =
      Some (Object [(''script-src'', Str ''a b''), (''default-src'', Str ''c'')])"
    by (simp add: lookup_def)
  show ?thesis
    using C5_unknown_source_list_value [OF a, of "''script-src''" "''x''"]
      C5_unknown_source_list_value [OF b, of "''script-src''" "''x''"]
      C5_unknown_source_list_value [OF c, of "''script-src''" "''x''"]
      C5_unknown_source_list_value [OF d, of "''script-src''" "''x''"]
    by (simp add: not_a_source_list_def source_list_value_def has_sources_def usable_default_def
        get_prop_def isArray_def lookup_def)
qed


section \<open>The append writes to the object it is given\<close>

lemma appendSourceList_same_object:
  assumes "lookup h p = Some (Object props)" "appendSourceList p D T h = (r, h')"
  shows "case r of Inl e \<Rightarrow> lookup h' p = Some (Object props)
         | Inr u \<Rightarrow> \<exists>xs. lookup h' p = Some (Object (set_prop props D (Str (join_sp (xs @ [T])))))"
proof (cases r)
  case (Inl e)
  with assms(2) have "prefix h h'" by (auto dest: appendSourceList_error)
  with assms(1) Inl show ?thesis
    by (simp add: prefix_lookup lookup_Some_less)
next
  case (Inr u)
  with assms show ?thesis by (auto dest: appendSourceList_ok)
qed

lemma appendSourceList_other_directives:
  assumes "lookup h p = Some (Object props)" "appendSourceList p D T h = (r, h')"
  shows "\<exists>props'. lookup h' p = Some (Object props') \<and> same_outside {D} props props'"
  using appendSourceList_same_object [OF assms]
  by (cases r) (auto simp: same_outside_def get_prop_set_prop has_prop_set_prop)


text \<open>
  C2, as stated: after the append every directive of the policy, the appended one included,
  has its original value when read again. It does not: the function assigns to
  \<^verbatim>\<open>policyObject[name]\<close>, so the directive that was the array \<^verbatim>\<open>["'self'"]\<close> is
  the string \<^verbatim>\<open>'self' x\<close> afterwards.
\<close>

theorem C2_append_mutates_input:
  "fst (read_prop 1 ''script-src'' [Array [CSP_SELF], Object [(''script-src'', Ref 0)]]) = Inr (Ref 0) \<and>
   fst (read_prop 1 ''script-src''
     (snd (appendSourceList 1 ''script-src'' ''x'' [Array [CSP_SELF], Object [(''script-src'', Ref 0)]]))) =
     Inr (Str (CSP_SELF @ '' x''))"
  by (simp add: appendSourceList_def ops get_prop_def set_prop_def has_prop_def CSP_SELF_def)


text \<open>
  C2, amended. The append changes the object it is given, and only the directive it appends
  to: nothing else that was in the store changes (the arrays the policy refers to
  included), every other directive reads as before, and the object is the old one with
  the appended directive set to the joined string, or the old one when the call throws.
\<close>

theorem C2_append_updates_in_place:
  assumes "lookup h p = Some (Object props)" and "appendSourceList p D T h = (r, h')"
  shows "modifies_only p h h' \<and>
         (\<forall>k. k \<noteq> D \<longrightarrow> fst (read_prop p k h') = fst (read_prop p k h)) \<and>
         (case r of Inl e \<Rightarrow> lookup h' p = Some (Object props)
          | Inr u \<Rightarrow> \<exists>xs. lookup h' p = Some (Object (set_prop props D (Str (join_sp (xs @ [T]))))))"
proof -
  have "modifies_only p h h'"
    using appendSourceList_frame [of p h D T] assms(2) by simp
  moreover have "fst (read_prop p k h') = fst (read_prop p k h)" if "k \<noteq> D" for k
    using appendSourceList_other_directives [OF assms] assms(1) that
    by (auto simp: read_prop_def same_outside_def)
  ultimately show ?thesis
    using appendSourceList_same_object [OF assms] by blast
qed


theorem C2_append_updates_in_place_witness:
  "appendSourceList 2 ''script-src'' ''x''
     [Array [CSP_SELF], Array [CSP_NONE], Object [(''default-src'', Ref 1), (''script-src'', Ref 0)]] =
     (Inr (), [Array [CSP_SELF], Array [CSP_NONE],
      Object [(''default-src'', Ref 1), (''script-src'', Str (CSP_SELF @ '' x''))],
      Array [CSP_SELF, ''x'']]) \<and>
   modifies_only 2 [Array [CSP_SELF], Array [CSP_NONE], Object [(''default-src'', Ref 1), (''script-src'', Ref 0)]]
     [Array [CSP_SELF], Array [CSP_NONE],
      Object [(''default-src'', Ref 1), (''script-src'', Str (CSP_SELF @ '' x''))],
      Array [CSP_SELF, ''x'']] \<and>
   fst (read_prop 2 ''default-src'' [Array [CSP_SELF], Array [CSP_NONE],
      Object [(''default-src'', Ref 1), (''script-src'', Str (CSP_SELF @ '' x''))],
      Array [CSP_SELF, ''x'']]) = Inr (Ref 1) \<and>
   lookup [Array [CSP_SELF], Array [CSP_NONE],
      Object [(''default-src'', Ref 1), (''script-src'', Str (CSP_SELF @ '' x''))],
      Array [CSP_SELF, ''x'']] 0 = Some (Array [CSP_SELF])"
proof -
  let ?h = "[Array [CSP_SELF], Array [CSP_NONE], Object [(''default-src'', Ref 1), (''script-src'', Ref 0)]]"
  let ?h' = "[Array [CSP_SELF], Array [CSP_NONE],
      Object [(''default-src'', Ref 1), (''script-src'', Str (CSP_SELF @ '' x''))],
      Array [CSP_SELF, ''x'']]"
  have 1: "lookup ?h 2 = Some (Object [(''default-src'', Ref 1), (''script-src'', Ref 0)])"
    by (simp add: lookup_def)
  have 2: "appendSourceList 2 ''script-src'' ''x'' ?h = (Inr (), ?h')"
    by (simp add: appendSourceList_def ops get_prop_def set_prop_def has_prop_def CSP_SELF_def)
  have 3: "''default-src'' \<noteq> ''script-src''" by simp
  show ?thesis
    using 2 C2_append_updates_in_place [OF 1 2] 3
    by (simp add: read_prop_def lookup_def get_prop_def)
qed


section \<open>Requests and builds leave the configured policy alone\<close>

lemma bind_res_frame:
  assumes "modifies_only p h (snd r)" and "\<And>x h1. modifies_only p h1 (snd (f x h1))"
  shows "modifies_only p h (snd (bind_res r f))"
proof (cases r)
  case (Pair res h1)
  show ?thesis
  proof (cases res)
    case (Inl e)
    with Pair assms(1) show ?thesis by (simp add: bind_res_def)
  next
    case (Inr x)
    with Pair assms(1) assms(2) [of h1 x] show ?thesis
      by (auto simp: bind_res_def intro: modifies_only_trans)
  qed
qed

lemma forEach_frame:
  assumes "\<And>x h. modifies_only p h (snd (f x h))"
  shows "modifies_only p h (snd (forEach xs f h))"
proof (induction xs arbitrary: h)
  case Nil
  show ?case by (simp add: modifies_only_refl)
next
  case (Cons x xs)
  show ?case
    unfolding forEach.simps by (rule bind_res_frame) (rule assms, rule Cons)
qed

lemma assign_prop_frame: "modifies_only p h (snd (assign_prop p k v h))"
  by (auto simp: assign_prop_def modifies_only_def split: option.splits jsobj.splits)

lemma allowLiveReload_frame: "modifies_only p h (snd (allowLiveReload p cfg h))"
  unfolding allowLiveReload_def Let_def
  by (intro forEach_frame bind_res_frame appendSourceList_frame)

lemma report_endpoint_frame: "modifies_only p h (snd (report_endpoint header options p h))"
  unfolding report_endpoint_def Let_def
  by (auto intro!: bind_res_frame appendSourceList_frame assign_prop_frame modifies_only_refl)

lemma object_assign_empty_cases:
  "(\<exists>e. object_assign_empty source h = (Inl e, h)) \<or>
   (\<exists>obj. object_assign_empty source h = (Inr (length h), h @ [Object obj]))"
  by (auto simp: object_assign_empty_def split: jsval.splits option.splits jsobj.splits)

lemma modifies_only_fresh:
  assumes "modifies_only (length h) (h @ [obj]) h'"
  shows "prefix h h'"
proof -
  from assms have len: "length h < length h'" and
    same: "\<And>a. a < length h \<Longrightarrow> h' ! a = h ! a"
    by (auto simp: modifies_only_def nth_append)
  have "take (length h) h' = h"
    by (rule nth_equalityI) (use len same in auto)
  then show ?thesis
    by (metis take_is_prefix)
qed

lemma header_policy_prefix: "prefix h (snd (header_policy self options h))"
proof -
  from object_assign_empty_cases [of "policy (config self)" h]
  show ?thesis
  proof
    assume "\<exists>e. object_assign_empty (policy (config self)) h = (Inl e, h)"
    then show ?thesis by (auto simp: header_policy_def bind_res_def)
  next
    assume "\<exists>obj. object_assign_empty (policy (config self)) h = (Inr (length h), h @ [Object obj])"
    then obtain obj where
      copy: "object_assign_empty (policy (config self)) h = (Inr (length h), h @ [Object obj])" ..
    let ?p = "length h"
    have "modifies_only ?p (h @ [Object obj]) (snd (header_policy self options h))"
      unfolding header_policy_def Let_def copy
      apply (subst bind_res_def)
      apply (simp only: prod.case sum.case)
      apply (intro bind_res_frame appendSourceList_frame report_endpoint_frame)
       apply (cases "liveReload self")
        apply (simp_all add: modifies_only_refl allowLiveReload_frame)
      done
    then show ?thesis by (rule modifies_only_fresh)
  qed
qed

lemma meta_policy_prefix: "prefix h (snd (meta_policy self environment h))"
proof -
  from object_assign_empty_cases [of "policy (config self)" h]
  show ?thesis
  proof
    assume "\<exists>e. object_assign_empty (policy (config self)) h = (Inl e, h)"
    then show ?thesis by (auto simp: meta_policy_def bind_res_def)
  next
    assume "\<exists>obj. object_assign_empty (policy (config self)) h = (Inr (length h), h @ [Object obj])"
    then obtain obj where
      copy: "object_assign_empty (policy (config self)) h = (Inr (length h), h @ [Object obj])" ..
    let ?p = "length h"
    have "modifies_only ?p (h @ [Object obj]) (snd (meta_policy self environment h))"
      unfolding meta_policy_def copy
      apply (subst bind_res_def)
      apply (simp only: prod.case sum.case)
      apply (intro bind_res_frame)
        apply (simp add: modifies_only_refl appendSourceList_frame)
       apply (cases "liveReload self")
        apply (simp_all add: modifies_only_refl allowLiveReload_frame)
      done
    then show ?thesis by (rule modifies_only_fresh)
  qed
qed

lemma request_handler_prefix: "prefix h (snd (request_handler bps self options res h))"
proof (cases "header_policy self options h")
  case (Pair r h')
  with header_policy_prefix [of h self options] show ?thesis
    by (cases r) (auto simp: request_handler_def bind_res_def Let_def)
qed

lemma contentFor_prefix: "prefix h (snd (snd (contentFor bps self type environment h)))"
proof (cases "meta_policy self environment h")
  case (Pair r h')
  with meta_policy_prefix [of h self environment] show ?thesis
    by (cases r) (auto simp: contentFor_def Let_def)
qed


text \<open>
  C3. The request handler and \<^verbatim>\<open>contentFor\<close> work on a copy of the configured policy,
  and an append extends a copy of the source list it starts from. So the store before a
  request or a build is an initial segment of the store after it, whether the call
  returns or throws: the configured policy object, the arrays it refers to and everything
  else that existed are what they were, and so they are after any sequence of requests
  and builds.
\<close>

theorem C3_base_policy_untouched:
  "prefix h (snd (request_handler bps self options res h)) \<and>
   prefix h (snd (snd (contentFor bps self type environment h))) \<and>
   prefix h (serve bps self evs h)"
proof -
  have "prefix h (serve bps self evs h)"
  proof (induction evs arbitrary: h)
    case Nil
    show ?case by simp
  next
    case (Cons ev evs)
    show ?case
    proof (cases ev)
      case (Request options res)
      have "prefix h (snd (request_handler bps self options res h))"
        by (rule request_handler_prefix)
      also have "prefix \<dots> (serve bps self (ev # evs) h)"
        unfolding Request serve.simps by (rule Cons)
      finally show ?thesis .
    next
      case (Build type environment)
      have "prefix h (snd (snd (contentFor bps self type environment h)))"
        by (rule contentFor_prefix)
      also have "prefix \<dots> (serve bps self (ev # evs) h)"
        unfolding Build serve.simps by (rule Cons)
      finally show ?thesis .
    qed
  qed
  then show ?thesis
    using request_handler_prefix contentFor_prefix by blast
qed


text \<open>
  A request and then a build against the policy
  \<^verbatim>\<open>{"default-src": ["'none'"], "script-src": ["'self'"]}\<close> at address 2.
\<close>

theorem C3_base_policy_untouched_witness:
  "prefix [Array [CSP_NONE], Array [CSP_SELF], Object [(''default-src'', Ref 0), (''script-src'', Ref 1)]]
     (serve (\<lambda>p h. [])
        \<lparr>config = \<lparr>delivery = [''header'', ''meta''], enabled = True, policy = Ref 2, reportOnly = True\<rparr>,
         liveReload = None\<rparr>
        [Request \<lparr>opt_liveReload = False, opt_liveReloadHost = None, opt_liveReloadPort = 35729,
                  opt_ssl = False, opt_host = None, opt_port = 4200\<rparr> Map.empty,
         Build ''head'' ''test'']
        [Array [CSP_NONE], Array [CSP_SELF], Object [(''default-src'', Ref 0), (''script-src'', Ref 1)]])"
  using C3_base_policy_untouched by blast

section \<open>The live-reload step\<close>

lemma bind_res_assoc:
  "bind_res (bind_res r f) g = bind_res r (\<lambda>x h. bind_res (f x h) g)"
  by (auto simp: bind_res_def split: prod.splits sum.splits)

lemma bind_res_Inr [simp]: "bind_res (Inr x, h) f = f x h"
  by (simp add: bind_res_def)

lemma bind_res_Inl [simp]: "bind_res (Inl e, h) f = (Inl e, h)"
  by (simp add: bind_res_def)

lemma append_all_Cons:
  "append_all p ((d, t) # rs) = (\<lambda>h. bind_res (appendSourceList p d t h) (\<lambda>_. append_all p rs))"
  by (rule ext) simp

lemma forEach_appends:
  "forEach (map Some cs)
     (\<lambda>hostname h. bind_res (appendSourceList p d1 (pre @ js_str hostname @ suf) h)
        (\<lambda>_. appendSourceList p d2 (js_str hostname @ suf))) h =
   append_all p (concat (map (\<lambda>c. [(d1, pre @ c @ suf), (d2, c @ suf)]) cs)) h"
proof (induction cs arbitrary: h)
  case Nil
  show ?case by simp
next
  case (Cons c cs)
  have rest: "forEach (map Some cs)
     (\<lambda>hostname h. bind_res (appendSourceList p d1 (pre @ js_str hostname @ suf) h)
        (\<lambda>_. appendSourceList p d2 (js_str hostname @ suf))) =
     append_all p (concat (map (\<lambda>c. [(d1, pre @ c @ suf), (d2, c @ suf)]) cs))"
    by (rule ext) (rule Cons)
  show ?case
    by (simp add: rest bind_res_assoc append_all_Cons)
qed

lemma candidates_filter:
  "filter Boolean_str [Some ''localhost'', Some ''0.0.0.0'', lr_hostname cfg] =
     map Some (live_reload_candidates cfg)"
proof (cases "lr_hostname cfg")
  case None
  then show ?thesis by (simp add: live_reload_candidates_def)
next
  case (Some s)
  then show ?thesis by (cases "s = []") (simp_all add: live_reload_candidates_def)
qed

lemma allowLiveReload_refines:
  "allowLiveReload p cfg h = append_all p (live_reload_appends cfg) h"
  unfolding allowLiveReload_def Let_def candidates_filter live_reload_appends_def
  using forEach_appends [of "live_reload_candidates cfg" p "''connect-src''"
      "if lr_ssl cfg then ''wss://'' else ''ws://''" "'':'' @ show_nat (lr_port cfg)" "''script-src''" h]
  by simp

lemma append_with_sources:
  assumes "lookup h p = Some (Object props)" and "has_sources h (get_prop props d)"
  shows "\<exists>h'. appendSourceList p d t h = (Inr (), h') \<and>
           lookup h' p = Some (Object (set_prop props d
             (Str (sources_string h (get_prop props d) @ '' '' @ t))))"
proof (cases "get_prop props d")
  case (Str s)
  with assms(2) have s: "s \<noteq> []" by (simp add: has_sources_def)
  have "join_sp (split_sp s @ [t]) = s @ '' '' @ t"
    by (simp add: join_sp_snoc join_split)
  then show ?thesis
    unfolding append_existing_string [OF assms(1) Str s] Str
    using lookup_Some_less [OF assms(1)]
    by (simp add: sources_string_def lookup_update_same)
next
  case (Ref a)
  with assms(2) obtain xs where xs: "lookup h a = Some (Array xs)" "xs \<noteq> []"
    by (auto simp: has_sources_def isArray_def array_length_def split: option.splits jsobj.splits)
  show ?thesis
    unfolding append_existing_array [OF assms(1) Ref xs] Ref
    using lookup_Some_less [OF assms(1)] xs
    by (simp add: sources_string_def lookup_update_same join_sp_snoc)
qed (use assms(2) in \<open>simp_all add: has_sources_def\<close>)

lemma has_sources_frame:
  assumes "modifies_only p h h'" "lookup h p = Some (Object props)" "has_sources h v"
  shows "has_sources h' v \<and> sources_string h' v = sources_string h v"
proof (cases v)
  case (Ref a)
  with assms(3) obtain xs where xs: "lookup h a = Some (Array xs)"
    by (auto simp: has_sources_def isArray_def split: option.splits jsobj.splits)
  with assms(2) have "a \<noteq> p" by auto
  with xs assms(1) have "lookup h' a = lookup h a"
    by (auto simp: modifies_only_def lookup_def split: if_splits)
  with assms(3) Ref show ?thesis
    by (simp add: has_sources_def sources_string_def isArray_def array_length_def)
qed (use assms(3) in \<open>simp_all add: has_sources_def sources_string_def\<close>)

lemma with_appended_Cons: "with_appended (s @ CHR '' '' # t) ts = with_appended s (t # ts)"
  by (simp add: with_appended_def)

lemma sources_string_Str: "sources_string h (Str s) = s"
  by (simp add: sources_string_def)

lemma append_all_with_sources:
  assumes "lookup h p = Some (Object props)"
    and "\<forall>d \<in> fst ` set reqs. has_sources h (get_prop props d)"
  shows "\<exists>h' props'. append_all p reqs h = (Inr (), h') \<and> modifies_only p h h' \<and>
           lookup h' p = Some (Object props') \<and>
           (\<forall>d \<in> fst ` set reqs. get_prop props' d =
               Str (with_appended (sources_string h (get_prop props d)) (requested d reqs))) \<and>
           same_outside (fst ` set reqs) props props'"
  using assms
proof (induction reqs arbitrary: h props)
  case Nil
  then show ?case by (simp add: modifies_only_refl same_outside_def)
next
  case (Cons r rs)
  obtain d t where r: "r = (d, t)" by (cases r)
  let ?S = "sources_string h (get_prop props d)"
  let ?props1 = "set_prop props d (Str (?S @ '' '' @ t))"
  from Cons.prems r have src: "has_sources h (get_prop props d)" by simp
  from append_with_sources [OF Cons.prems(1) src, of t] obtain h1 where
    step: "appendSourceList p d t h = (Inr (), h1)" and
    obj1: "lookup h1 p = Some (Object ?props1)" by blast
  have fr1: "modifies_only p h h1"
    using appendSourceList_frame [of p h d t] step by simp
  have pre: "\<forall>d' \<in> fst ` set rs. has_sources h1 (get_prop ?props1 d')"
  proof
    fix d' assume d': "d' \<in> fst ` set rs"
    show "has_sources h1 (get_prop ?props1 d')"
    proof (cases "d' = d")
      case True
      then show ?thesis by (simp add: get_prop_set_prop has_sources_def)
    next
      case False
      from Cons.prems(2) d' have "has_sources h (get_prop props d')" by auto
      from has_sources_frame [OF fr1 Cons.prems(1) this] False show ?thesis
        by (simp add: get_prop_set_prop)
    qed
  qed
  from Cons.IH [OF obj1 pre] obtain h' props' where
    run: "append_all p rs h1 = (Inr (), h')" and fr2: "modifies_only p h1 h'" and
    obj': "lookup h' p = Some (Object props')" and
    vals: "\<forall>d' \<in> fst ` set rs. get_prop props' d' =
             Str (with_appended (sources_string h1 (get_prop ?props1 d')) (requested d' rs))" and
    same: "same_outside (fst ` set rs) ?props1 props'" by blast
  have "append_all p (r # rs) h = (Inr (), h')"
    using step run by (simp add: r)
  moreover have "modifies_only p h h'"
    using fr1 fr2 by (rule modifies_only_trans)
  moreover have "get_prop props' d' =
      Str (with_appended (sources_string h (get_prop props d')) (requested d' (r # rs)))"
    if d': "d' \<in> fst ` set (r # rs)" for d'
  proof (cases "d' \<in> fst ` set rs")
    case True
    with vals have v: "get_prop props' d' =
        Str (with_appended (sources_string h1 (get_prop ?props1 d')) (requested d' rs))" by blast
    show ?thesis
    proof (cases "d' = d")
      case True
      with v show ?thesis
        by (simp add: get_prop_set_prop sources_string_Str with_appended_Cons requested_def r)
    next
      case False
      from Cons.prems(2) d' have "has_sources h (get_prop props d')" by auto
      from has_sources_frame [OF fr1 Cons.prems(1) this] v False show ?thesis
        by (simp add: get_prop_set_prop requested_def r)
    qed
  next
    case False
    with d' r have eq: "d' = d" by auto
    from False same have "get_prop props' d' = get_prop ?props1 d'"
      by (simp add: same_outside_def)
    moreover from False have "requested d' rs = []"
      by (auto simp: requested_def filter_empty_conv image_iff)
    ultimately show ?thesis
      using eq by (simp add: get_prop_set_prop requested_def r with_appended_def)
  qed
  moreover have "same_outside (fst ` set (r # rs)) props props'"
    using same by (auto simp: same_outside_def r get_prop_set_prop has_prop_set_prop)
  ultimately show ?case
    using obj' by blast
qed

lemma requested_pairs:
  assumes "d1 \<noteq> d2"
  shows "requested d1 (concat (map (\<lambda>c. [(d1, f c), (d2, g c)]) cs)) = map f cs"
    and "requested d2 (concat (map (\<lambda>c. [(d1, f c), (d2, g c)]) cs)) = map g cs"
  using assms by (induction cs) (auto simp: requested_def)

lemma live_reload_appends_keys:
  "fst ` set (live_reload_appends cfg) = {''connect-src'', ''script-src''}"
  by (auto simp: live_reload_appends_def live_reload_candidates_def image_iff split: option.splits)

lemma show_nat_4200: "show_nat 4200 = ''4200''"
  by code_simp


text \<open>
  C6. The live-reload step is the sequence of appends the specification lists: for the
  candidates \<^verbatim>\<open>localhost\<close>, \<^verbatim>\<open>0.0.0.0\<close> and the configured hostname unless it is
  falsy, in this order, the websocket origin to \<^verbatim>\<open>connect-src\<close> and then
  \<^verbatim>\<open>host:port\<close> to \<^verbatim>\<open>script-src\<close>, stopping at the first append that throws. When
  both directives have sources, every append succeeds and each directive ends as its old
  string form followed by its new sources in candidate order.
\<close>

theorem C6_live_reload:
  "allowLiveReload p cfg h = append_all p (live_reload_appends cfg) h \<and>
   (lookup h p = Some (Object props) \<and> has_sources h (get_prop props ''connect-src'') \<and>
    has_sources h (get_prop props ''script-src'') \<longrightarrow>
      fst (allowLiveReload p cfg h) = Inr () \<and>
      fst (read_prop p ''connect-src'' (snd (allowLiveReload p cfg h))) =
        Inr (Str (with_appended (sources_string h (get_prop props ''connect-src''))
          (map (\<lambda>c. (if lr_ssl cfg then ''wss://'' else ''ws://'') @ c @ '':'' @ show_nat (lr_port cfg))
               (live_reload_candidates cfg)))) \<and>
      fst (read_prop p ''script-src'' (snd (allowLiveReload p cfg h))) =
        Inr (Str (with_appended (sources_string h (get_prop props ''script-src''))
          (map (\<lambda>c. c @ '':'' @ show_nat (lr_port cfg)) (live_reload_candidates cfg)))))"
proof (intro conjI impI)
  show "allowLiveReload p cfg h = append_all p (live_reload_appends cfg) h"
    by (rule allowLiveReload_refines)
next
  assume a: "lookup h p = Some (Object props) \<and> has_sources h (get_prop props ''connect-src'') \<and>
    has_sources h (get_prop props ''script-src'')"
  then have obj: "lookup h p = Some (Object props)" and
    src: "\<forall>d \<in> fst ` set (live_reload_appends cfg). has_sources h (get_prop props d)"
    by (simp_all add: live_reload_appends_keys)
  from append_all_with_sources [OF obj src] obtain h' props' where
    run: "append_all p (live_reload_appends cfg) h = (Inr (), h')" and
    obj': "lookup h' p = Some (Object props')" and
    vals: "\<forall>d \<in> fst ` set (live_reload_appends cfg). get_prop props' d =
       Str (with_appended (sources_string h (get_prop props d)) (requested d (live_reload_appends cfg)))"
    by blast
  have ne: "''connect-src'' \<noteq> ''script-src''" by simp
  from run show "fst (allowLiveReload p cfg h) = Inr ()"
    by (simp add: allowLiveReload_refines)
  from run obj' vals
  show "fst (read_prop p ''connect-src'' (snd (allowLiveReload p cfg h))) =
        Inr (Str (with_appended (sources_string h (get_prop props ''connect-src''))
          (map (\<lambda>c. (if lr_ssl cfg then ''wss://'' else ''ws://'') @ c @ '':'' @ show_nat (lr_port cfg))
               (live_reload_candidates cfg))))"
    unfolding allowLiveReload_refines
    by (simp add: read_prop_def live_reload_appends_keys)
       (simp add: live_reload_appends_def requested_pairs [OF ne])
  from run obj' vals
  show "fst (read_prop p ''script-src'' (snd (allowLiveReload p cfg h))) =
        Inr (Str (with_appended (sources_string h (get_prop props ''script-src''))
          (map (\<lambda>c. c @ '':'' @ show_nat (lr_port cfg)) (live_reload_candidates cfg))))"
    unfolding allowLiveReload_refines
    by (simp add: read_prop_def live_reload_appends_keys)
       (simp add: live_reload_appends_def requested_pairs [OF ne])
qed


text \<open>
  The example of the specification: hostname \<^verbatim>\<open>example.com\<close>, port 4200, no TLS,
  against \<^verbatim>\<open>{"connect-src": ["'self'"], "script-src": ["'self'"]}\<close>.
\<close>

theorem C6_live_reload_witness:
  "fst (allowLiveReload 2
      \<lparr>lr_host = None, lr_hostname = Some ''example.com'', lr_port = 4200, lr_ssl = False\<rparr>
      [Array [CSP_SELF], Array [CSP_SELF], Object [(''connect-src'', Ref 0), (''script-src'', Ref 1)]]) = Inr () \<and>
   fst (read_prop 2 ''connect-src'' (snd (allowLiveReload 2
      \<lparr>lr_host = None, lr_hostname = Some ''example.com'', lr_port = 4200, lr_ssl = False\<rparr>
      [Array [CSP_SELF], Array [CSP_SELF], Object [(''connect-src'', Ref 0), (''script-src'', Ref 1)]]))) =
     Inr (Str (CSP_SELF @ '' ws://localhost:4200 ws://0.0.0.0:4200 ws://example.com:4200'')) \<and>
   fst (read_prop 2 ''script-src'' (snd (allowLiveReload 2
      \<lparr>lr_host = None, lr_hostname = Some ''example.com'', lr_port = 4200, lr_ssl = False\<rparr>
      [Array [CSP_SELF], Array [CSP_SELF], Object [(''connect-src'', Ref 0), (''script-src'', Ref 1)]]))) =
     Inr (Str (CSP_SELF @ '' localhost:4200 0.0.0.0:4200 example.com:4200''))"
proof -
  let ?cfg = "\<lparr>lr_host = None, lr_hostname = Some ''example.com'', lr_port = 4200, lr_ssl = False\<rparr>"
  let ?h = "[Array [CSP_SELF], Array [CSP_SELF], Object [(''connect-src'', Ref 0), (''script-src'', Ref 1)]]"
  let ?props = "[(''connect-src'', Ref 0), (''script-src'', Ref 1)]"
  have hyp: "lookup ?h 2 = Some (Object ?props) \<and> has_sources ?h (get_prop ?props ''connect-src'') \<and>
    has_sources ?h (get_prop ?props ''script-src'')"
    by (simp add: lookup_def get_prop_def has_sources_def isArray_def array_length_def)
  have src: "sources_string ?h (get_prop ?props ''connect-src'') = CSP_SELF"
    "sources_string ?h (get_prop ?props ''script-src'') = CSP_SELF"
    by (simp_all add: lookup_def get_prop_def sources_string_def)
  from C6_live_reload [of 2 ?cfg ?h ?props, THEN conjunct2, THEN mp, OF hyp]
  show ?thesis
    unfolding src by (simp add: with_appended_def live_reload_candidates_def show_nat_4200)
qed

section \<open>The report endpoint\<close>

lemma header_name_report_only: "str_includes ''Report-Only'' (header_name cfg) = reportOnly cfg"
  by (simp add: header_name_def CSP_HEADER_REPORT_ONLY_def CSP_HEADER_def)

lemma in_object_has_prop: "lookup h p = Some (Object props) \<Longrightarrow> in_object k p h = has_prop k props"
  by (simp add: in_object_def)

lemma report_endpoint_unfold:
  assumes "lookup h p = Some (Object props)"
  shows "report_endpoint (header_name cfg) options p h =
     (if reportOnly cfg \<and> \<not> has_prop ''report-uri'' props
      then bind_res (appendSourceList p ''connect-src'' (report_origin options) h)
             (\<lambda>_. assign_prop p ''report-uri'' (Str (report_origin options @ ''/csp-report'')))
      else (Inr (), h))"
proof -
  have "(if Boolean_str (opt_host options) then js_str (opt_host options) else ''localhost'') =
      (case opt_host options of None \<Rightarrow> ''localhost'' | Some s \<Rightarrow> if s = [] then ''localhost'' else s)"
    by (cases "opt_host options") simp_all
  then show ?thesis
    by (simp add: report_endpoint_def header_name_report_only in_object_has_prop [OF assms]
        report_origin_def REPORT_PATH_def Let_def)
qed

lemma assign_prop_ok:
  "lookup h p = Some (Object props) \<Longrightarrow>
     assign_prop p k v h = (Inr (), h[p := Object (set_prop props k v)])"
  by (simp add: assign_prop_def)

lemma lookup_list_update: "p < length h \<Longrightarrow> lookup (h[p := x]) p = Some x"
  by (simp add: lookup_def)


text \<open>
  The step alone, on a working policy \<open>props\<close>: it runs exactly when the header is the
  report-only one and \<^verbatim>\<open>report-uri\<close> is not a key; it is then the append of the origin
  to \<^verbatim>\<open>connect-src\<close> followed by the assignment of \<^verbatim>\<open>report-uri\<close>, and a run
  that returns leaves the policy with these two directives set; otherwise nothing changes.
\<close>

lemma report_endpoint_result:
  assumes "lookup h p = Some (Object props)"
  shows "(reportOnly cfg \<and> \<not> has_prop ''report-uri'' props \<longrightarrow>
            report_endpoint (header_name cfg) options p h =
              bind_res (appendSourceList p ''connect-src'' (report_origin options) h)
                (\<lambda>_. assign_prop p ''report-uri'' (Str (report_origin options @ ''/csp-report''))) \<and>
            (\<forall>h'. report_endpoint (header_name cfg) options p h = (Inr (), h') \<longrightarrow>
               (\<exists>xs. lookup h' p = Some (Object
                  (set_prop (set_prop props ''connect-src'' (Str (join_sp (xs @ [report_origin options]))))
                     ''report-uri'' (Str (report_origin options @ ''/csp-report''))))))) \<and>
         (\<not> (reportOnly cfg \<and> \<not> has_prop ''report-uri'' props) \<longrightarrow>
            report_endpoint (header_name cfg) options p h = (Inr (), h))"
proof (intro conjI impI allI)
  assume c: "reportOnly cfg \<and> \<not> has_prop ''report-uri'' props"
  then show eq: "report_endpoint (header_name cfg) options p h =
      bind_res (appendSourceList p ''connect-src'' (report_origin options) h)
        (\<lambda>_. assign_prop p ''report-uri'' (Str (report_origin options @ ''/csp-report'')))"
    by (simp add: report_endpoint_unfold [OF assms])
  fix h'
  assume ok: "report_endpoint (header_name cfg) options p h = (Inr (), h')"
  obtain r h1 where ap: "appendSourceList p ''connect-src'' (report_origin options) h = (r, h1)"
    by (cases "appendSourceList p ''connect-src'' (report_origin options) h")
  with ok eq obtain u where r: "r = Inr u" and
    as: "assign_prop p ''report-uri'' (Str (report_origin options @ ''/csp-report'')) h1 = (Inr (), h')"
    by (cases r) (simp_all add: bind_res_def)
  from appendSourceList_ok [OF ap [unfolded r] assms] obtain xs where
    obj1: "lookup h1 p = Some (Object (set_prop props ''connect-src'' (Str (join_sp (xs @ [report_origin options])))))"
    by blast
  from as have "h' = h1[p := Object (set_prop (set_prop props ''connect-src''
        (Str (join_sp (xs @ [report_origin options])))) ''report-uri''
        (Str (report_origin options @ ''/csp-report'')))]"
    by (simp add: assign_prop_ok [OF obj1])
  with lookup_Some_less [OF obj1]
  show "\<exists>xs. lookup h' p = Some (Object
      (set_prop (set_prop props ''connect-src'' (Str (join_sp (xs @ [report_origin options]))))
         ''report-uri'' (Str (report_origin options @ ''/csp-report''))))"
    by (auto simp: lookup_list_update)
next
  assume n: "\<not> (reportOnly cfg \<and> \<not> has_prop ''report-uri'' props)"
  show "report_endpoint (header_name cfg) options p h = (Inr (), h)"
    unfolding report_endpoint_unfold [OF assms] by (simp only: n if_False)
qed


section \<open>An empty policy string\<close>

text \<open>
  Whatever the serializer, an empty policy string makes the handler hand the response on as
  it received it.
\<close>

lemma request_handler_empty_string:
  assumes "enabled (config self)" and "header_policy self options h = (Inr p, h')"
    and "buildPolicyString p h' = []"
  shows "request_handler buildPolicyString self options res h = (Inr res, h')"
  using assms by (simp add: request_handler_def Let_def)


section \<open>Invariants of the working policy\<close>

lemma bind_res_inv:
  assumes "P (snd r)" and "\<And>x h1. P h1 \<Longrightarrow> P (snd (f x h1))"
  shows "P (snd (bind_res r f))"
proof (cases r)
  case (Pair res h1)
  with assms show ?thesis by (cases res) (auto simp: bind_res_def)
qed

lemma forEach_inv:
  assumes "\<And>x h. P h \<Longrightarrow> P (snd (f x h))" and "P h"
  shows "P (snd (forEach xs f h))"
  using assms(2)
proof (induction xs arbitrary: h)
  case Nil
  then show ?case by simp
next
  case (Cons x xs)
  show ?case
    unfolding forEach.simps
    by (rule bind_res_inv [where P = P]) (rule assms(1), rule Cons.prems, rule Cons.IH)
qed

lemma bind_res_InrE:
  assumes "bind_res r f = (Inr y, h')"
  obtains x h1 where "r = (Inr x, h1)" and "f x h1 = (Inr y, h')"
proof (cases r)
  case (Pair res h1)
  with assms that show ?thesis by (cases res) (auto simp: bind_res_def)
qed

lemma same_outside_trans:
  "same_outside ks props props1 \<Longrightarrow> same_outside {d} props1 props' \<Longrightarrow> d \<in> ks \<Longrightarrow>
     same_outside ks props props'"
  by (auto simp: same_outside_def)

lemma append_keeps_outside:
  assumes "keeps_outside ks p props h" and "d \<in> ks"
  shows "keeps_outside ks p props (snd (appendSourceList p d t h))"
proof -
  from assms(1) obtain props1 where
    obj: "lookup h p = Some (Object props1)" and same: "same_outside ks props props1"
    by (auto simp: keeps_outside_def)
  obtain r h' where run: "appendSourceList p d t h = (r, h')"
    by (cases "appendSourceList p d t h")
  from appendSourceList_other_directives [OF obj run] same assms(2) run show ?thesis
    by (auto simp: keeps_outside_def intro: same_outside_trans)
qed

lemma assign_keeps_outside:
  assumes "keeps_outside ks p props h" and "d \<in> ks"
  shows "keeps_outside ks p props (snd (assign_prop p d v h))"
proof -
  from assms(1) obtain props1 where
    obj: "lookup h p = Some (Object props1)" and same: "same_outside ks props props1"
    by (auto simp: keeps_outside_def)
  have "same_outside {d} props1 (set_prop props1 d v)"
    by (simp add: same_outside_def get_prop_set_prop has_prop_set_prop)
  with same assms(2) have "same_outside ks props (set_prop props1 d v)"
    by (blast intro: same_outside_trans)
  with obj lookup_Some_less [OF obj] show ?thesis
    by (auto simp: keeps_outside_def assign_prop_ok lookup_list_update)
qed

lemma allowLiveReload_keeps_outside:
  assumes "keeps_outside ks p props h" and "''connect-src'' \<in> ks" and "''script-src'' \<in> ks"
  shows "keeps_outside ks p props (snd (allowLiveReload p cfg h))"
  unfolding allowLiveReload_def Let_def
proof (rule forEach_inv [where P = "keeps_outside ks p props"])
  fix x h1
  assume "keeps_outside ks p props h1"
  then have "keeps_outside ks p props (snd (appendSourceList p ''connect-src''
      ((if lr_ssl cfg then ''wss://'' else ''ws://'') @ js_str x @ '':'' @ show_nat (lr_port cfg)) h1))"
    using assms(2) by (rule append_keeps_outside)
  then show "keeps_outside ks p props
      (snd (bind_res (appendSourceList p ''connect-src''
          ((if lr_ssl cfg then ''wss://'' else ''ws://'') @ js_str x @ '':'' @ show_nat (lr_port cfg)) h1)
        (\<lambda>_. appendSourceList p ''script-src'' (js_str x @ '':'' @ show_nat (lr_port cfg)))))"
    by (rule bind_res_inv [where P = "keeps_outside ks p props"])
       (rule append_keeps_outside [OF _ assms(3)])
qed (rule assms(1))

lemma object_assign_copy:
  assumes "lookup h c = Some (Object props)"
  shows "object_assign_empty (Ref c) h = (Inr (length h), h @ [Object props])"
  using assms by (simp add: object_assign_empty_def)

lemma lookup_append_new: "lookup (h @ [x]) (length h) = Some x"
  by (simp add: lookup_def)

lemma meta_policy_keeps:
  assumes "policy (config self) = Ref c" and "lookup h c = Some (Object props)"
  shows "fst (meta_policy self environment h) \<in> {Inr (length h)} \<union> range Inl \<and>
         keeps_outside {''script-src'', ''connect-src''} (length h) props
           (snd (meta_policy self environment h))"
proof -
  let ?ks = "{''script-src'', ''connect-src''}"
  let ?p = "length h"
  let ?h1 = "h @ [Object props]"
  let ?step1 = "if environment = ''test'' then appendSourceList ?p ''script-src'' nonce_source ?h1
                else (Inr (), ?h1)"
  let ?rest = "\<lambda>(u::unit) h. bind_res (case liveReload self of
                 Some lr \<Rightarrow> allowLiveReload ?p lr h | None \<Rightarrow> (Inr (), h))
                 (\<lambda>(u::unit) h. (Inr ?p, h))"
  have unfold: "meta_policy self environment h = bind_res ?step1 ?rest"
    by (simp add: meta_policy_def assms(1) object_assign_copy [OF assms(2)])
  have k0: "keeps_outside ?ks ?p props ?h1"
    by (simp add: keeps_outside_def lookup_append_new same_outside_def)
  have k1: "keeps_outside ?ks ?p props (snd ?step1)"
    using k0 by (simp add: append_keeps_outside)
  have k2: "keeps_outside ?ks ?p props (snd (?rest x h1))" if "keeps_outside ?ks ?p props h1" for x h1
  proof (rule bind_res_inv [where P = "keeps_outside ?ks ?p props"])
    show "keeps_outside ?ks ?p props (snd (case liveReload self of
        Some lr \<Rightarrow> allowLiveReload ?p lr h1 | None \<Rightarrow> (Inr (), h1)))"
      using that by (cases "liveReload self") (simp_all add: allowLiveReload_keeps_outside)
  qed simp
  have "keeps_outside ?ks ?p props (snd (bind_res ?step1 ?rest))"
    using k1 k2 by (rule bind_res_inv [where P = "keeps_outside ?ks ?p props"])
  moreover have "fst (bind_res r (\<lambda>(u::unit) h. (Inr ?p, h))) \<in> {Inr ?p} \<union> range Inl" for r
    by (cases r) (auto simp: bind_res_def split: sum.splits)
  then have "fst (bind_res ?step1 ?rest) \<in> {Inr ?p} \<union> range Inl"
    by (cases ?step1) (auto simp: bind_res_def split: sum.splits)
  ultimately show ?thesis
    by (simp only: unfold)
qed


section \<open>Directives that a meta element does not support\<close>

lemma unsupported_not_appended:
  "name \<in> set META_UNSUPPORTED_DIRECTIVES \<Longrightarrow> name \<notin> {''script-src'', ''connect-src''}"
  by (auto simp: META_UNSUPPORTED_DIRECTIVES_def CSP_REPORT_URI_def CSP_FRAME_ANCESTORS_def
      CSP_SANDBOX_def)

lemma distinct_unsupported: "distinct META_UNSUPPORTED_DIRECTIVES"
  by (simp add: META_UNSUPPORTED_DIRECTIVES_def CSP_REPORT_URI_def CSP_FRAME_ANCESTORS_def
      CSP_SANDBOX_def)

lemma unsupportedDirectives_kept:
  assumes "lookup h' p = Some (Object props')"
    and "same_outside {''script-src'', ''connect-src''} props props'"
  shows "unsupportedDirectives p h' =
     filter (\<lambda>name. has_prop name props) META_UNSUPPORTED_DIRECTIVES"
  unfolding unsupportedDirectives_def
proof (rule filter_cong [OF refl])
  fix name assume "name \<in> set META_UNSUPPORTED_DIRECTIVES"
  from unsupported_not_appended [OF this] assms(2)
  have "has_prop name props' = has_prop name props"
    by (simp add: same_outside_def)
  with assms(1) show "in_object name p h' = has_prop name props"
    by (simp add: in_object_has_prop)
qed


text \<open>
  Whatever the serializer, \<^verbatim>\<open>contentFor\<close> for the page head prints one warning for
  each unsupported directive that is a key of the configured policy and serializes the
  working policy, in which these directives are as configured.
\<close>

lemma contentFor_head_result:
  assumes "enabled (config self)" and "DELIVERY_META \<in> set (delivery (config self))"
    and "policy (config self) = Ref c" and "lookup h c = Some (Object props)"
    and "contentFor bps self ''head'' environment h = (Inr r, effects, h')"
  shows "effects =
           WriteWarnLine report_only_meta_message (reportOnly (config self)) #
           map (\<lambda>name. LogYellow (unsupported_message name))
             (filter (\<lambda>name. has_prop name props) META_UNSUPPORTED_DIRECTIVES) @
           (if bps (length h) h' = [] then [LogYellow ''CSP via meta tag enabled but no policy exist.'']
            else []) \<and>
         distinct META_UNSUPPORTED_DIRECTIVES \<and>
         r = (if bps (length h) h' = [] then None else Some (meta_tag (bps (length h) h'))) \<and>
         (\<exists>props'. lookup h' (length h) = Some (Object props') \<and>
            (\<forall>name \<in> set META_UNSUPPORTED_DIRECTIVES.
               has_prop name props' = has_prop name props \<and>
               get_prop props' name = get_prop props name))"
proof -
  obtain res h1 where mp: "meta_policy self environment h = (res, h1)"
    by (cases "meta_policy self environment h")
  from meta_policy_keeps [OF assms(3,4), of environment] mp
  have res: "res = Inr (length h) \<or> res \<in> range Inl"
    and keep: "keeps_outside {''script-src'', ''connect-src''} (length h) props h1"
    by auto
  from assms(1,2,5) mp have notInl: "res \<notin> range Inl"
    by (auto simp: contentFor_def Let_def)
  with res have p: "res = Inr (length h)" by blast
  from keep obtain props' where
    obj: "lookup h1 (length h) = Some (Object props')" and
    same: "same_outside {''script-src'', ''connect-src''} props props'"
    by (auto simp: keeps_outside_def)
  note un = unsupportedDirectives_kept [OF obj same]
  from assms(1,2,5) mp p have h': "h' = h1"
    by (auto simp: contentFor_def Let_def split: if_splits)
  from assms(1,2,5) mp p un have eff: "effects =
           WriteWarnLine report_only_meta_message (reportOnly (config self)) #
           map (\<lambda>name. LogYellow (unsupported_message name))
             (filter (\<lambda>name. has_prop name props) META_UNSUPPORTED_DIRECTIVES) @
           (if bps (length h) h' = [] then [LogYellow ''CSP via meta tag enabled but no policy exist.'']
            else [])"
    and r: "r = (if bps (length h) h' = [] then None else Some (meta_tag (bps (length h) h')))"
    by (auto simp: contentFor_def Let_def split: if_splits)
  have "\<forall>name \<in> set META_UNSUPPORTED_DIRECTIVES.
               has_prop name props' = has_prop name props \<and>
               get_prop props' name = get_prop props name"
    using same unsupported_not_appended by (simp add: same_outside_def)
  with obj h' eff r distinct_unsupported show ?thesis by blast
qed


section \<open>The nonce\<close>

lemma nonce_source_value: "nonce_source = CHR 0x27 # ''nonce-abcdefg'' @ [CHR 0x27]"
  by (simp add: nonce_source_def STATIC_TEST_NONCE_def)








lemma object_assign_empty_Inr:
  assumes "object_assign_empty source h = (Inr p, h1)"
  obtains obj where "p = length h" and "h1 = h @ [Object obj]"
  using assms object_assign_empty_cases [of source h] by auto








section \<open>Two remarks on the request path\<close>





text \<open>
  \<^verbatim>\<open>serverMiddleware\<close> stores the live-reload host under \<^verbatim>\<open>host\<close>, so the settings
  it caches have no \<^verbatim>\<open>hostname\<close> and the candidates are the two fixed ones.
\<close>

lemma serverMiddleware_setup_candidates:
  assumes "opt_liveReload options"
  shows "\<exists>lr. liveReload (serverMiddleware_setup self options) = Some lr \<and>
           live_reload_candidates lr = [''localhost'', ''0.0.0.0'']"
  using assms by (simp add: serverMiddleware_setup_def live_reload_candidates_def)

section \<open>The report endpoint in the request handler\<close>

lemma header_policy_split:
  "header_policy self options h =
     bind_res (nonce_and_live_reload self h) (\<lambda>p h.
     bind_res (report_endpoint (header_name (config self)) options p h) (\<lambda>_ h. (Inr p, h)))"
  by (simp add: header_policy_def nonce_and_live_reload_def bind_res_assoc Let_def)

lemma same_outside_refl: "same_outside ks props props"
  by (simp add: same_outside_def)

lemma nonce_and_live_reload_object:
  assumes "nonce_and_live_reload self h = (Inr p, h3)"
  shows "p = length h \<and> (\<exists>props3. lookup h3 p = Some (Object props3))"
proof -
  from assms obtain p0 h1 where
    copy: "object_assign_empty (policy (config self)) h = (Inr p0, h1)" and
    rest1: "bind_res (appendSourceList p0 ''script-src'' nonce_source h1) (\<lambda>_ h.
         bind_res (case liveReload self of
                     Some lr \<Rightarrow> allowLiveReload p0 lr h
                   | None \<Rightarrow> (Inr (), h)) (\<lambda>_ h. (Inr p0, h))) = (Inr p, h3)"
    unfolding nonce_and_live_reload_def by (rule bind_res_InrE)
  from copy obtain obj where p0: "p0 = length h" and h1: "h1 = h @ [Object obj]"
    by (rule object_assign_empty_Inr)
  from rest1 obtain u h2 where
    ap: "appendSourceList p0 ''script-src'' nonce_source h1 = (Inr u, h2)" and
    rest2: "bind_res (case liveReload self of
                     Some lr \<Rightarrow> allowLiveReload p0 lr h2
                   | None \<Rightarrow> (Inr (), h2)) (\<lambda>_ h. (Inr p0, h)) = (Inr p, h3)"
    by (rule bind_res_InrE)
  from rest2 obtain u2 h3' where
    lr: "(case liveReload self of Some lr \<Rightarrow> allowLiveReload p0 lr h2 | None \<Rightarrow> (Inr (), h2)) = (Inr u2, h3')" and
    fin: "((Inr p0, h3') :: addr result) = (Inr p, h3)"
    by (rule bind_res_InrE)
  have k1: "keeps_outside UNIV p0 obj h1"
    by (simp add: keeps_outside_def p0 h1 lookup_append_new same_outside_refl)
  have "keeps_outside UNIV p0 obj (snd (appendSourceList p0 ''script-src'' nonce_source h1))"
    using k1 by (rule append_keeps_outside) simp
  with ap have k2: "keeps_outside UNIV p0 obj h2" by simp
  have "keeps_outside UNIV p0 obj (snd (case liveReload self of
      Some lr \<Rightarrow> allowLiveReload p0 lr h2 | None \<Rightarrow> (Inr (), h2)))"
    using k2 by (cases "liveReload self") (simp_all add: allowLiveReload_keeps_outside)
  with lr have "keeps_outside UNIV p0 obj h3'" by simp
  with fin p0 show ?thesis
    by (auto simp: keeps_outside_def)
qed

lemma request_handler_InrE:
  assumes "enabled (config self)" and "request_handler bps self options res h = (Inr res', h')"
  obtains p where "header_policy self options h = (Inr p, h')"
    and "res' = (if bps p h' = [] then res
                 else set_csp_headers (header_name (config self)) (bps p h') res)"
proof -
  from assms have "bind_res (header_policy self options h) (\<lambda>policyObject h.
      if bps policyObject h = [] then (Inr res, h)
      else (Inr (set_csp_headers (header_name (config self)) (bps policyObject h) res), h)) =
      (Inr res', h')"
    by (simp add: request_handler_def Let_def)
  then obtain p h1 where hp: "header_policy self options h = (Inr p, h1)" and
    fin: "((if bps p h1 = [] then (Inr res, h1)
      else (Inr (set_csp_headers (header_name (config self)) (bps p h1) res), h1)) :: response result) =
      (Inr res', h')"
    by (rule bind_res_InrE)
  from fin have "h1 = h'" by (simp split: if_splits)
  with hp fin that show ?thesis by (auto split: if_splits)
qed


text \<open>
  C7. In a request that the handler serves, let the working policy after the nonce and
  live reload have the properties \<open>props3\<close>. The report endpoint is injected exactly
  when report-only mode is on and \<^verbatim>\<open>report-uri\<close> is not a key of \<open>props3\<close>. Then the
  origin (scheme by the TLS flag, the host or \<^verbatim>\<open>localhost\<close>, the port) is appended to
  \<^verbatim>\<open>connect-src\<close> with \<^verbatim>\<open>appendSourceList\<close>, and \<^verbatim>\<open>report-uri\<close> is assigned
  the origin followed by \<^verbatim>\<open>/csp-report\<close>: the final store is the store after that
  append with the one assignment made. Otherwise the final store is the store before the
  step, so a \<^verbatim>\<open>report-uri\<close> that is present stays as it is. The header value is the
  serialization of this working policy.
\<close>

theorem C7_report_endpoint_on_request:
  assumes "enabled (config self)"
    and "request_handler bps self options res h = (Inr res', h')"
  shows "\<exists>h3 props3.
           nonce_and_live_reload self h = (Inr (length h), h3) \<and>
           lookup h3 (length h) = Some (Object props3) \<and>
           (if reportOnly (config self) \<and> \<not> has_prop ''report-uri'' props3
            then \<exists>u h4 xs.
                   appendSourceList (length h) ''connect-src'' (report_origin options) h3 = (Inr u, h4) \<and>
                   lookup h4 (length h) = Some (Object (set_prop props3 ''connect-src''
                     (Str (join_sp (xs @ [report_origin options]))))) \<and>
                   h' = h4[length h := Object (set_prop (set_prop props3 ''connect-src''
                       (Str (join_sp (xs @ [report_origin options]))))
                     ''report-uri'' (Str (report_origin options @ ''/csp-report'')))] \<and>
                   fst (read_prop (length h) ''report-uri'' h') =
                     Inr (Str (report_origin options @ ''/csp-report''))
            else h' = h3) \<and>
           res' = (if bps (length h) h' = [] then res
                   else set_csp_headers (header_name (config self)) (bps (length h) h') res)"
proof -
  from assms obtain p where hp: "header_policy self options h = (Inr p, h')"
    and res': "res' = (if bps p h' = [] then res
                 else set_csp_headers (header_name (config self)) (bps p h') res)"
    by (rule request_handler_InrE)
  from hp obtain p1 h3 where
    pre: "nonce_and_live_reload self h = (Inr p1, h3)" and
    rest: "bind_res (report_endpoint (header_name (config self)) options p1 h3)
            (\<lambda>_ h. (Inr p1, h)) = (Inr p, h')"
    unfolding header_policy_split by (rule bind_res_InrE)
  from rest obtain u3 h4' where
    rp: "report_endpoint (header_name (config self)) options p1 h3 = (Inr u3, h4')" and
    fin: "((Inr p1, h4') :: addr result) = (Inr p, h')"
    by (rule bind_res_InrE)
  from fin have p1: "p1 = p" and h4': "h4' = h'" by simp_all
  from nonce_and_live_reload_object [OF pre] p1 obtain props3 where
    p: "p = length h" and obj3: "lookup h3 p = Some (Object props3)" by auto
  note step = report_endpoint_unfold [OF obj3, of "config self" options]
  have cases: "if reportOnly (config self) \<and> \<not> has_prop ''report-uri'' props3
            then \<exists>u h4 xs.
                   appendSourceList p ''connect-src'' (report_origin options) h3 = (Inr u, h4) \<and>
                   lookup h4 p = Some (Object (set_prop props3 ''connect-src''
                     (Str (join_sp (xs @ [report_origin options]))))) \<and>
                   h' = h4[p := Object (set_prop (set_prop props3 ''connect-src''
                       (Str (join_sp (xs @ [report_origin options]))))
                     ''report-uri'' (Str (report_origin options @ ''/csp-report'')))] \<and>
                   fst (read_prop p ''report-uri'' h') =
                     Inr (Str (report_origin options @ ''/csp-report''))
            else h' = h3"
  proof (cases "reportOnly (config self) \<and> \<not> has_prop ''report-uri'' props3")
    case False
    with rp step p1 h4' have "h' = h3" by auto
    then show ?thesis unfolding if_not_P [OF False] .
  next
    case True
    with rp step p1 h4' have
      eq: "bind_res (appendSourceList p ''connect-src'' (report_origin options) h3)
            (\<lambda>_. assign_prop p ''report-uri'' (Str (report_origin options @ ''/csp-report''))) =
           (Inr u3, h')" by simp
    then obtain u h4 where
      ap: "appendSourceList p ''connect-src'' (report_origin options) h3 = (Inr u, h4)" and
      as: "assign_prop p ''report-uri'' (Str (report_origin options @ ''/csp-report'')) h4 = (Inr u3, h')"
      by (rule bind_res_InrE)
    from appendSourceList_ok [OF ap obj3] obtain xs where
      obj4: "lookup h4 p = Some (Object (set_prop props3 ''connect-src''
         (Str (join_sp (xs @ [report_origin options])))))" ..
    from as have h': "h' = h4[p := Object (set_prop (set_prop props3 ''connect-src''
         (Str (join_sp (xs @ [report_origin options]))))
         ''report-uri'' (Str (report_origin options @ ''/csp-report'')))]"
      by (simp add: assign_prop_ok [OF obj4])
    have "fst (read_prop p ''report-uri'' h') = Inr (Str (report_origin options @ ''/csp-report''))"
      using lookup_Some_less [OF obj4]
      by (simp add: h' read_prop_def lookup_list_update get_prop_set_prop)
    with ap obj4 h' show ?thesis unfolding if_P [OF True] by blast
  qed
  from pre p1 p have "nonce_and_live_reload self h = (Inr (length h), h3)" by simp
  with obj3 cases res' show ?thesis
    unfolding p by blast
qed


lemma split_sp_CSP_SELF: "split_sp CSP_SELF = [CSP_SELF]"
  by (simp add: CSP_SELF_def)

lemma report_only_request:
  "request_handler buildPolicyString_spec
     \<lparr>config = \<lparr>delivery = [''header''], enabled = True, policy = Ref 0, reportOnly = True\<rparr>,
      liveReload = None\<rparr>
     \<lparr>opt_liveReload = False, opt_liveReloadHost = None, opt_liveReloadPort = 35729,
       opt_ssl = False, opt_host = None, opt_port = 4200\<rparr>
     Map.empty [Object [(''connect-src'', Str CSP_SELF)]] =
   (Inr (set_csp_headers ''Content-Security-Policy-Report-Only''
           (''connect-src '' @ CSP_SELF @ '' http://localhost:4200; script-src '' @ nonce_source @
            ''; report-uri http://localhost:4200/csp-report'') Map.empty),
    [Object [(''connect-src'', Str CSP_SELF)],
     Object [(''connect-src'', Str (CSP_SELF @ '' http://localhost:4200'')),
             (''script-src'', Str nonce_source),
             (''report-uri'', Str ''http://localhost:4200/csp-report'')],
     Array [], Array [nonce_source], Array [CSP_SELF], Array [CSP_SELF, ''http://localhost:4200'']])"
proof -
  let ?self = "\<lparr>config = \<lparr>delivery = [''header''], enabled = True, policy = Ref 0, reportOnly = True\<rparr>,
      liveReload = None\<rparr>"
  let ?opts = "\<lparr>opt_liveReload = False, opt_liveReloadHost = None, opt_liveReloadPort = 35729,
       opt_ssl = False, opt_host = None, opt_port = 4200\<rparr>"
  let ?props0 = "[(''connect-src'', Str CSP_SELF)]"
  let ?props2 = "[(''connect-src'', Str CSP_SELF), (''script-src'', Str nonce_source)]"
  let ?props4 = "[(''connect-src'', Str (CSP_SELF @ '' http://localhost:4200'')),
             (''script-src'', Str nonce_source)]"
  let ?props5 = "[(''connect-src'', Str (CSP_SELF @ '' http://localhost:4200'')),
             (''script-src'', Str nonce_source),
             (''report-uri'', Str ''http://localhost:4200/csp-report'')]"
  let ?h0 = "[Object ?props0]"
  let ?h1 = "[Object ?props0, Object ?props0]"
  let ?h2 = "[Object ?props0, Object ?props2, Array [], Array [nonce_source]]"
  let ?h4 = "[Object ?props0, Object ?props4, Array [], Array [nonce_source], Array [CSP_SELF],
              Array [CSP_SELF, ''http://localhost:4200'']]"
  let ?h5 = "[Object ?props0, Object ?props5, Array [], Array [nonce_source], Array [CSP_SELF],
              Array [CSP_SELF, ''http://localhost:4200'']]"
  have l1: "lookup ?h1 1 = Some (Object ?props0)" by (simp add: lookup_def)
  have ap1: "appendSourceList 1 ''script-src'' nonce_source ?h1 = (Inr (), ?h2)"
    by (subst append_fallback_none [OF l1])
       (simp_all add: spec_normalize_def get_prop_def set_prop_def has_prop_def)
  have pre: "nonce_and_live_reload ?self ?h0 = (Inr 1, ?h2)"
    using ap1 by (simp add: nonce_and_live_reload_def object_assign_empty_def lookup_def)
  have l2: "lookup ?h2 1 = Some (Object ?props2)" by (simp add: lookup_def)
  have v2: "get_prop ?props2 ''connect-src'' = Str CSP_SELF" by (simp add: get_prop_def)
  have ne: "CSP_SELF \<noteq> []" by (simp add: CSP_SELF_def)
  have ap2: "appendSourceList 1 ''connect-src'' ''http://localhost:4200'' ?h2 = (Inr (), ?h4)"
    by (subst append_existing_string [OF l2 v2 ne])
       (simp add: split_sp_CSP_SELF set_prop_def has_prop_def)
  have o: "report_origin ?opts = ''http://localhost:4200''"
    by (simp add: report_origin_def show_nat_4200)
  have l4: "lookup ?h4 1 = Some (Object ?props4)" by (simp add: lookup_def)
  have l2s: "lookup ?h2 (Suc 0) = Some (Object ?props2)" using l2 by simp
  have l4s: "lookup ?h4 (Suc 0) = Some (Object ?props4)" using l4 by simp
  have rep: "report_endpoint (header_name (config ?self)) ?opts 1 ?h2 = (Inr (), ?h5)"
    using ap2 by (simp add: report_endpoint_unfold [OF l2s] has_prop_def o assign_prop_ok [OF l4s]
        set_prop_def)
  have hp: "header_policy ?self ?opts ?h0 = (Inr 1, ?h5)"
    using pre rep by (simp add: header_policy_split)
  have bps: "buildPolicyString_spec 1 ?h5 =
      ''connect-src '' @ CSP_SELF @ '' http://localhost:4200; script-src '' @ nonce_source @
            ''; report-uri http://localhost:4200/csp-report''"
    by (simp add: buildPolicyString_spec_def lookup_def sources_string_def CSP_SELF_def
        nonce_source_value)
  show ?thesis
    using bps by (simp add: request_handler_def hp header_name_def Let_def CSP_HEADER_REPORT_ONLY_def)
qed


text \<open>
  A report-only request on \<^verbatim>\<open>{"connect-src": "'self'"}\<close> with port 4200:
  \<^verbatim>\<open>report-uri\<close> is \<^verbatim>\<open>http://localhost:4200/csp-report\<close> and \<^verbatim>\<open>connect-src\<close> has
  the origin appended.
\<close>

theorem C7_report_endpoint_on_request_witness:
  "fst (read_prop 1 ''report-uri'' (snd (request_handler buildPolicyString_spec
     \<lparr>config = \<lparr>delivery = [''header''], enabled = True, policy = Ref 0, reportOnly = True\<rparr>,
      liveReload = None\<rparr>
     \<lparr>opt_liveReload = False, opt_liveReloadHost = None, opt_liveReloadPort = 35729,
       opt_ssl = False, opt_host = None, opt_port = 4200\<rparr>
     Map.empty [Object [(''connect-src'', Str CSP_SELF)]]))) =
     Inr (Str ''http://localhost:4200/csp-report'') \<and>
   fst (read_prop 1 ''connect-src'' (snd (request_handler buildPolicyString_spec
     \<lparr>config = \<lparr>delivery = [''header''], enabled = True, policy = Ref 0, reportOnly = True\<rparr>,
      liveReload = None\<rparr>
     \<lparr>opt_liveReload = False, opt_liveReloadHost = None, opt_liveReloadPort = 35729,
       opt_ssl = False, opt_host = None, opt_port = 4200\<rparr>
     Map.empty [Object [(''connect-src'', Str CSP_SELF)]]))) =
     Inr (Str (CSP_SELF @ '' http://localhost:4200''))"
proof -
  let ?self = "\<lparr>config = \<lparr>delivery = [''header''], enabled = True, policy = Ref 0, reportOnly = True\<rparr>,
      liveReload = None\<rparr>"
  have en: "enabled (config ?self)" by simp
  from C7_report_endpoint_on_request [OF en report_only_request] show ?thesis
    by (simp add: report_only_request read_prop_def lookup_def get_prop_def)
qed


section \<open>The request handler always sets the header\<close>










section \<open>The meta element keeps the unsupported directives\<close>

lemma join_with_contains:
  "x \<in> set xs \<Longrightarrow> \<exists>pre post. join_with sep xs = pre @ x @ post"
proof (induction sep xs rule: join_with.induct)
  case (1 sep)
  then show ?case by simp
next
  case (2 sep y)
  then have "join_with sep [y] = [] @ x @ []" by simp
  then show ?case by blast
next
  case (3 sep y z zs)
  show ?case
  proof (cases "x = y")
    case True
    then have "join_with sep (y # z # zs) = [] @ x @ (sep @ join_with sep (z # zs))" by simp
    then show ?thesis by blast
  next
    case False
    with 3 obtain pre post where "join_with sep (z # zs) = pre @ x @ post" by auto
    then have "join_with sep (y # z # zs) = (y @ sep @ pre) @ x @ post" by simp
    then show ?thesis by blast
  qed
qed

lemma has_prop_in_set: "has_prop k props \<Longrightarrow> (k, get_prop props k) \<in> set props"
proof -
  assume "has_prop k props"
  then obtain v where "map_of props k = Some v"
    by (cases "map_of props k") (auto simp: has_prop_def map_of_eq_None_iff)
  then show ?thesis
    by (auto simp: get_prop_def dest: map_of_SomeD)
qed

lemma serialized_contains:
  assumes "lookup h p = Some (Object props)" and "has_prop name props"
    and "sources_string h (get_prop props name) \<noteq> []"
  shows "\<exists>pre post. buildPolicyString_spec p h =
           pre @ name @ '' '' @ sources_string h (get_prop props name) @ post"
proof -
  let ?clauses = "map (\<lambda>(name, v). name @ '' '' @ sources_string h v)
      (filter (\<lambda>(name, v). sources_string h v \<noteq> []) props)"
  from has_prop_in_set [OF assms(2)] assms(3)
  have "(name, get_prop props name) \<in> set (filter (\<lambda>(name, v). sources_string h v \<noteq> []) props)"
    by simp
  then have "name @ '' '' @ sources_string h (get_prop props name) \<in> set ?clauses"
    by (force simp: image_iff)
  from join_with_contains [OF this, of "''; ''"] assms(1) show ?thesis
    by (simp add: buildPolicyString_spec_def)
qed

lemma sources_string_prefix:
  assumes "prefix h h'" and "sources_string h v \<noteq> []"
  shows "sources_string h' v = sources_string h v"
proof (cases v)
  case (Ref a)
  with assms(2) have "a < length h"
    by (auto simp: sources_string_def lookup_def split: if_splits)
  with assms(1) Ref show ?thesis
    by (simp add: sources_string_def prefix_lookup)
qed (simp_all add: sources_string_def)


text \<open>
  C9, amended. When \<^verbatim>\<open>contentFor\<close> delivers the policy in the page head, it prints one
  warning for each of \<^verbatim>\<open>report-uri\<close>, \<^verbatim>\<open>frame-ancestors\<close> and \<^verbatim>\<open>sandbox\<close> that
  is a key of the configured policy, and it strips none of them: each of them that has a
  non-empty value is in the content attribute of the returned meta element as the clause
  \<^verbatim>\<open>directive value\<close>.
\<close>

theorem C9_meta_warn_and_serialize:
  assumes "enabled (config self)" and "DELIVERY_META \<in> set (delivery (config self))"
    and "policy (config self) = Ref c" and "lookup h c = Some (Object props)"
    and "contentFor buildPolicyString_spec self ''head'' environment h = (Inr r, effects, h')"
  shows "effects =
           WriteWarnLine report_only_meta_message (reportOnly (config self)) #
           map (\<lambda>name. LogYellow (''CSP delivered via meta does not support `'' @ name @
                                    ''`, per the W3C recommendation.''))
             (filter (\<lambda>name. has_prop name props) [''report-uri'', ''frame-ancestors'', ''sandbox'']) @
           (if r = None then [LogYellow ''CSP via meta tag enabled but no policy exist.''] else []) \<and>
         (\<forall>name \<in> set [''report-uri'', ''frame-ancestors'', ''sandbox''].
            has_prop name props \<and> sources_string h (get_prop props name) \<noteq> [] \<longrightarrow>
            (\<exists>pre post. r = Some (''<meta http-equiv=\"Content-Security-Policy\" content=\"'' @
                 pre @ name @ '' '' @ sources_string h (get_prop props name) @ post @ ''\">'')))"
proof -
  let ?v = "buildPolicyString_spec (length h) h'"
  from contentFor_head_result [OF assms] obtain props' where
    eff: "effects =
           WriteWarnLine report_only_meta_message (reportOnly (config self)) #
           map (\<lambda>name. LogYellow (unsupported_message name))
             (filter (\<lambda>name. has_prop name props) META_UNSUPPORTED_DIRECTIVES) @
           (if ?v = [] then [LogYellow ''CSP via meta tag enabled but no policy exist.''] else [])"
    and r: "r = (if ?v = [] then None else Some (meta_tag ?v))"
    and obj: "lookup h' (length h) = Some (Object props')"
    and kept: "\<forall>name \<in> set META_UNSUPPORTED_DIRECTIVES.
               has_prop name props' = has_prop name props \<and>
               get_prop props' name = get_prop props name"
    by blast
  have meta: "META_UNSUPPORTED_DIRECTIVES = [''report-uri'', ''frame-ancestors'', ''sandbox'']"
    by (simp add: META_UNSUPPORTED_DIRECTIVES_def CSP_REPORT_URI_def CSP_FRAME_ANCESTORS_def
        CSP_SANDBOX_def)
  have msg: "unsupported_message name = ''CSP delivered via meta does not support `'' @ name @
      ''`, per the W3C recommendation.''" for name
    by (simp add: unsupported_message_def)
  from r have none: "(r = None) = (?v = [])" by simp
  have 1: "effects =
           WriteWarnLine report_only_meta_message (reportOnly (config self)) #
           map (\<lambda>name. LogYellow (''CSP delivered via meta does not support `'' @ name @
                                    ''`, per the W3C recommendation.''))
             (filter (\<lambda>name. has_prop name props) [''report-uri'', ''frame-ancestors'', ''sandbox'']) @
           (if r = None then [LogYellow ''CSP via meta tag enabled but no policy exist.''] else [])"
    unfolding eff meta msg none ..
  have pre: "prefix h h'"
    using contentFor_prefix [of h buildPolicyString_spec self "''head''" environment] assms(5)
    by simp
  have 2: "\<exists>pre post. r = Some (''<meta http-equiv=\"Content-Security-Policy\" content=\"'' @
                 pre @ name @ '' '' @ sources_string h (get_prop props name) @ post @ ''\">'')"
    if name: "name \<in> set [''report-uri'', ''frame-ancestors'', ''sandbox'']"
      and has: "has_prop name props" and val: "sources_string h (get_prop props name) \<noteq> []"
    for name
  proof -
    from name kept have k: "has_prop name props'" "get_prop props' name = get_prop props name"
      using has by (auto simp: meta)
    have same: "sources_string h' (get_prop props name) = sources_string h (get_prop props name)"
      using pre val by (rule sources_string_prefix)
    from serialized_contains [OF obj k(1)] k(2) same val obtain pre post where
      v: "?v = pre @ name @ '' '' @ sources_string h (get_prop props name) @ post"
      by auto
    then have "?v \<noteq> []" by simp
    with r v have "r = Some (''<meta http-equiv=\"Content-Security-Policy\" content=\"'' @
                 pre @ name @ '' '' @ sources_string h (get_prop props name) @ post @ ''\">'')"
      by (simp add: meta_tag_def CSP_HEADER_def)
    then show ?thesis by blast
  qed
  from 1 2 show ?thesis by blast
qed

lemma null_sandbox_build:
  "contentFor buildPolicyString_spec
     \<lparr>config = \<lparr>delivery = [''meta''], enabled = True, policy = Ref 0, reportOnly = False\<rparr>,
      liveReload = None\<rparr>
     ''head'' ''development''
     [Object [(''default-src'', Str ''x''), (''sandbox'', Null)]] =
   (Inr (Some ''<meta http-equiv=\"Content-Security-Policy\" content=\"default-src x\">''),
    [WriteWarnLine report_only_meta_message False,
     LogYellow ''CSP delivered via meta does not support `sandbox`, per the W3C recommendation.''],
    [Object [(''default-src'', Str ''x''), (''sandbox'', Null)],
     Object [(''default-src'', Str ''x''), (''sandbox'', Null)]])"
proof -
  let ?props = "[(''default-src'', Str ''x''), (''sandbox'', Null)]"
  let ?h' = "[Object ?props, Object ?props]"
  have bps: "buildPolicyString_spec (Suc 0) ?h' = ''default-src x''"
    by (simp add: buildPolicyString_spec_def lookup_def sources_string_def)
  have un: "unsupportedDirectives (Suc 0) ?h' = [''sandbox'']"
    by (simp add: unsupportedDirectives_def in_object_def lookup_def has_prop_def
        META_UNSUPPORTED_DIRECTIVES_def CSP_REPORT_URI_def CSP_FRAME_ANCESTORS_def CSP_SANDBOX_def)
  show ?thesis
    by (simp add: contentFor_def meta_policy_def object_assign_empty_def lookup_def DELIVERY_META_def
        Let_def bps un meta_tag_def CSP_HEADER_def unsupported_message_def)
qed


text \<open>
  C9, as stated: every unsupported directive of the policy is warned about and is in the
  content attribute. For \<^verbatim>\<open>{"default-src": "x", "sandbox": null}\<close> the warning for
  \<^verbatim>\<open>sandbox\<close> is printed, and the content attribute is \<^verbatim>\<open>default-src x\<close>: a
  directive without a value is not serialized.
\<close>

theorem C9_empty_value_not_serialized:
  "contentFor buildPolicyString_spec
     \<lparr>config = \<lparr>delivery = [''meta''], enabled = True, policy = Ref 0, reportOnly = False\<rparr>,
      liveReload = None\<rparr>
     ''head'' ''development''
     [Object [(''default-src'', Str ''x''), (''sandbox'', Null)]] =
   (Inr (Some ''<meta http-equiv=\"Content-Security-Policy\" content=\"default-src x\">''),
    [WriteWarnLine report_only_meta_message False,
     LogYellow ''CSP delivered via meta does not support `sandbox`, per the W3C recommendation.''],
    [Object [(''default-src'', Str ''x''), (''sandbox'', Null)],
     Object [(''default-src'', Str ''x''), (''sandbox'', Null)]]) \<and>
   has_prop ''sandbox'' [(''default-src'', Str ''x''), (''sandbox'', Null)] \<and>
   \<not> str_includes ''sandbox''
       ''<meta http-equiv=\"Content-Security-Policy\" content=\"default-src x\">''"
  by (simp add: null_sandbox_build has_prop_def)


text \<open>
  A policy with \<^verbatim>\<open>sandbox\<close> and \<^verbatim>\<open>report-uri\<close>: two warnings, and both directives
  are in the content attribute.
\<close>

theorem C9_meta_warn_and_serialize_witness:
  "contentFor buildPolicyString_spec
     \<lparr>config = \<lparr>delivery = [''meta''], enabled = True, policy = Ref 0, reportOnly = False\<rparr>,
      liveReload = None\<rparr>
     ''head'' ''development''
     [Object [(''default-src'', Str ''x''), (''sandbox'', Str ''allow-scripts''), (''report-uri'', Str ''/r'')]] =
   (Inr (Some ''<meta http-equiv=\"Content-Security-Policy\" content=\"default-src x; sandbox allow-scripts; report-uri /r\">''),
    [WriteWarnLine report_only_meta_message False,
     LogYellow ''CSP delivered via meta does not support `report-uri`, per the W3C recommendation.'',
     LogYellow ''CSP delivered via meta does not support `sandbox`, per the W3C recommendation.''],
    [Object [(''default-src'', Str ''x''), (''sandbox'', Str ''allow-scripts''), (''report-uri'', Str ''/r'')],
     Object [(''default-src'', Str ''x''), (''sandbox'', Str ''allow-scripts''), (''report-uri'', Str ''/r'')]])"
proof -
  let ?self = "\<lparr>config = \<lparr>delivery = [''meta''], enabled = True, policy = Ref 0, reportOnly = False\<rparr>,
      liveReload = None\<rparr>"
  let ?props = "[(''default-src'', Str ''x''), (''sandbox'', Str ''allow-scripts''), (''report-uri'', Str ''/r'')]"
  let ?h = "[Object ?props]"
  let ?h' = "[Object ?props, Object ?props]"
  have 1: "enabled (config ?self)" and 2: "DELIVERY_META \<in> set (delivery (config ?self))"
    and 3: "policy (config ?self) = Ref 0" and 4: "lookup ?h 0 = Some (Object ?props)"
    by (simp_all add: DELIVERY_META_def lookup_def)
  have bps: "buildPolicyString_spec (Suc 0) ?h' = ''default-src x; sandbox allow-scripts; report-uri /r''"
    by (simp add: buildPolicyString_spec_def lookup_def sources_string_def)
  have un: "unsupportedDirectives (Suc 0) ?h' = [''report-uri'', ''sandbox'']"
    by (simp add: unsupportedDirectives_def in_object_def lookup_def has_prop_def
        META_UNSUPPORTED_DIRECTIVES_def CSP_REPORT_URI_def CSP_FRAME_ANCESTORS_def CSP_SANDBOX_def)
  have run: "contentFor buildPolicyString_spec ?self ''head'' ''development'' ?h =
      (Inr (Some ''<meta http-equiv=\"Content-Security-Policy\" content=\"default-src x; sandbox allow-scripts; report-uri /r\">''),
       [WriteWarnLine report_only_meta_message False,
        LogYellow ''CSP delivered via meta does not support `report-uri`, per the W3C recommendation.'',
        LogYellow ''CSP delivered via meta does not support `sandbox`, per the W3C recommendation.''], ?h')"
    by (simp add: contentFor_def meta_policy_def object_assign_empty_def lookup_def DELIVERY_META_def
        Let_def bps un meta_tag_def CSP_HEADER_def unsupported_message_def)
  from C9_meta_warn_and_serialize [OF 1 2 3 4 run] run show ?thesis
    by simp
qed


end
